theory Spec2Isabelle
  imports Main
begin

section \<open>Python strings\<close>

text \<open>
  A Python \<open>str\<close> is a sequence of Unicode code points. Message text, button labels,
  replies and remote payloads are modelled as lists of code points (\<open>str\<close>).
  Dictionary keys, language codes and the keys of the translation table, which the
  program only ever writes as ASCII literals, are kept as HOL strings.
\<close>

type_synonym str = "nat list"

definition ascii :: "string \<Rightarrow> str" where
  "ascii s = map of_char s"

text \<open>The code points for which \<open>str.isspace\<close> holds; \<open>strip()\<close> and \<open>split()\<close> use them.\<close>

definition isspace :: "nat \<Rightarrow> bool" where
  "isspace c \<longleftrightarrow>
     (9 \<le> c \<and> c \<le> 13) \<or> (28 \<le> c \<and> c \<le> 32) \<or> c = 133 \<or> c = 160 \<or> c = 5760 \<or>
     (8192 \<le> c \<and> c \<le> 8202) \<or> c = 8232 \<or> c = 8233 \<or> c = 8239 \<or> c = 8287 \<or> c = 12288"

definition strip :: "str \<Rightarrow> str" where
  "strip t = rev (dropWhile isspace (rev (dropWhile isspace t)))"

text \<open>\<open>t.split()\<close>: the maximal runs of non-whitespace code points, in order.\<close>

fun split_acc :: "str \<Rightarrow> str \<Rightarrow> str list" where
  "split_acc cur [] = (if cur = [] then [] else [cur])"
| "split_acc cur (c # cs) =
     (if isspace c then (if cur = [] then split_acc [] cs else cur # split_acc [] cs)
      else split_acc (cur @ [c]) cs)"

definition split :: "str \<Rightarrow> str list" where
  "split t = split_acc [] t"

text \<open>
  \<open>t.split(' ', 1)\<close>: cut at the first space (U+0020) only. The result always has a
  first part; the second part exists when the text contains a space.
\<close>

definition split_space1 :: "str \<Rightarrow> str \<times> str option" where
  "split_space1 t =
     (if 32 \<in> set t then (takeWhile (\<lambda>c. c \<noteq> 32) t, Some (tl (dropWhile (\<lambda>c. c \<noteq> 32) t)))
      else (t, None))"

text \<open>\<open>w.startswith('#')\<close>\<close>

fun startswith_hash :: "str \<Rightarrow> bool" where
  "startswith_hash [] = False"
| "startswith_hash (c # cs) = (c = 35)"

text \<open>\<open>str(n)\<close> for an integer: decimal digits, with a minus sign when negative.\<close>

fun digits :: "nat \<Rightarrow> string" where
  "digits n = (if n < 10 then [char_of (48 + n)] else digits (n div 10) @ [char_of (48 + n mod 10)])"

declare digits.simps [simp del]

definition str_int :: "int \<Rightarrow> string" where
  "str_int i = (if i < 0 then CHR ''-'' # digits (nat (- i)) else digits (nat i))"

section \<open>The user store (users.py)\<close>

text \<open>
  Timestamps are the instants that \<open>datetime.now()\<close> reads, in microseconds; the ISO
  string that the program stores is identified with the instant it denotes. Every
  function that reads the clock takes the reading as an argument. Writing the store to
  its file (\<open>save_users\<close>) is outside the model: the store below is the dictionary
  \<open>UserManager.users\<close> held in memory.
\<close>

type_synonym time = int

record user =
  user_id :: int
  username :: "str option"
  first_name :: "str option"
  last_name :: "str option"
  language :: string
  registered_at :: time
  last_activity :: time
  stats :: "string \<rightharpoonup> int"
  preferences :: "string \<rightharpoonup> bool"

type_synonym users = "string \<rightharpoonup> user"

datatype exn = KeyError string

definition initial_stats :: "string \<rightharpoonup> int" where
  "initial_stats =
     [''words_saved'' \<mapsto> 0, ''hashtags_created'' \<mapsto> 0, ''hashtags_deleted'' \<mapsto> 0,
      ''pdfs_generated'' \<mapsto> 0, ''total_messages'' \<mapsto> 0]"

definition initial_preferences :: "string \<rightharpoonup> bool" where
  "initial_preferences = [''auto_save'' \<mapsto> True, ''notifications'' \<mapsto> True]"

text \<open>
  \<open>register_user\<close> reads the clock twice: \<open>t1\<close> for \<open>registered_at\<close>, then \<open>t2\<close> for
  \<open>last_activity\<close>.
\<close>

definition register_user ::
  "time \<Rightarrow> time \<Rightarrow> int \<Rightarrow> str option \<Rightarrow> str option \<Rightarrow> str option \<Rightarrow> users \<Rightarrow> bool \<times> users"
where
  "register_user t1 t2 uid uname fname lname us =
     (let user_id_str = str_int uid in
      if us user_id_str \<noteq> None then (False, us)
      else
        (True, us(user_id_str \<mapsto>
           \<lparr>user_id = uid, username = uname, first_name = fname, last_name = lname,
            language = ''en'', registered_at = t1, last_activity = t2,
            stats = initial_stats, preferences = initial_preferences\<rparr>)))"

definition get_user :: "users \<Rightarrow> int \<Rightarrow> user option" where
  "get_user us uid = us (str_int uid)"

definition update_user_language :: "time \<Rightarrow> int \<Rightarrow> string \<Rightarrow> users \<Rightarrow> users" where
  "update_user_language t uid lang us =
     (case us (str_int uid) of
        None \<Rightarrow> us
      | Some u \<Rightarrow> us(str_int uid \<mapsto> u\<lparr>language := lang, last_activity := t\<rparr>))"

text \<open>
  \<open>update_user_activity\<close> assigns \<open>last_activity\<close> first and then runs
  \<open>stats['total_messages'] += 1\<close>, which raises \<open>KeyError\<close> when the counter is
  missing; the assignment made before the raise stays in the dictionary.
\<close>

definition update_user_activity :: "time \<Rightarrow> int \<Rightarrow> users \<Rightarrow> exn option \<times> users" where
  "update_user_activity t uid us =
     (case us (str_int uid) of
        None \<Rightarrow> (None, us)
      | Some u \<Rightarrow>
          (let u1 = u\<lparr>last_activity := t\<rparr> in
           case stats u1 ''total_messages'' of
             None \<Rightarrow> (Some (KeyError ''total_messages''), us(str_int uid \<mapsto> u1))
           | Some n \<Rightarrow>
               (None, us(str_int uid \<mapsto> u1\<lparr>stats := (stats u1)(''total_messages'' \<mapsto> n + 1)\<rparr>))))"

definition increment_stat :: "int \<Rightarrow> string \<Rightarrow> users \<Rightarrow> users" where
  "increment_stat uid stat_name us =
     (case us (str_int uid) of
        None \<Rightarrow> us
      | Some u \<Rightarrow>
          (case stats u stat_name of
             None \<Rightarrow> us
           | Some n \<Rightarrow> us(str_int uid \<mapsto> u\<lparr>stats := (stats u)(stat_name \<mapsto> n + 1)\<rparr>)))"

definition get_user_stats :: "users \<Rightarrow> int \<Rightarrow> string \<rightharpoonup> int" where
  "get_user_stats us uid = (case get_user us uid of Some u \<Rightarrow> stats u | None \<Rightarrow> Map.empty)"

text \<open>The five counters that \<open>register_user\<close> creates.\<close>

definition stat_names :: "string list" where
  "stat_names =
     [''words_saved'', ''hashtags_created'', ''hashtags_deleted'', ''pdfs_generated'',
      ''total_messages'']"

text \<open>Sequences of calls, as a test driver would issue them.\<close>

fun increment_stats :: "(int \<times> string) list \<Rightarrow> users \<Rightarrow> users" where
  "increment_stats [] us = us"
| "increment_stats ((uid, stat_name) # calls) us = increment_stats calls (increment_stat uid stat_name us)"

text \<open>
  \<open>update_user_activity\<close> called once per clock reading of the list; the sequence stops
  at the first call that raises.
\<close>

fun update_user_activities :: "time list \<Rightarrow> int \<Rightarrow> users \<Rightarrow> exn option \<times> users" where
  "update_user_activities [] uid us = (None, us)"
| "update_user_activities (t # ts) uid us =
     (case update_user_activity t uid us of
        (Some e, us') \<Rightarrow> (Some e, us')
      | (None, us') \<Rightarrow> update_user_activities ts uid us')"

section \<open>The bot (bot.py)\<close>

subsection \<open>Environment, events and state\<close>

text \<open>
  The module \<open>translations\<close> (\<open>get_text\<close>, \<open>LANGUAGES\<close>) is not part of the sources, so
  both are parameters of the model, as are the Unicode case mappings \<open>str.lower\<close> and
  \<open>str.upper\<close>, the clock, the date formatting, the answers of the remote service, the
  outcome of rendering the PDF and the outcome of sending it. All clock readings made
  while one message is handled are the one reading \<open>now\<close>.
\<close>

record hashtag =
  tag_name :: str
  tag_description :: str

type_synonym item = "string \<rightharpoonup> str"

text \<open>
  What a call of \<open>requests\<close> does: it returns a response (status code and decoded JSON
  body, which is read only when the status is 200), or raises. \<open>ConnectionError\<close> covers
  every exception caught by \<open>except requests.exceptions.ConnectionError\<close>, \<open>Timeout\<close> the
  remaining timeouts, \<open>OtherException\<close> anything else, each with its \<open>str(e)\<close>.
\<close>

datatype 'a response = Response int 'a | ConnectionError | Timeout str | OtherException str

datatype request =
    GetHashtags
  | PostHashtag str str
  | DeleteHashtag str
  | GetMessages
  | PostMessage str "str list" string str time
  | PostUser string "str option" "str option" "str option" string time "string \<rightharpoonup> int"

text \<open>
  The \<open>try\<close> block that sends the PDF can fail when the file is opened, when the
  document is sent, or when the temporary file is removed after sending.
\<close>

datatype send_outcome = Sent | OpenFailed | SendFailed | RemoveFailed

record env =
  get_text :: "string \<Rightarrow> string \<Rightarrow> str"
  LANGUAGES :: "string \<Rightarrow> string set"
  lower :: "str \<Rightarrow> str"
  upper :: "str \<Rightarrow> str"
  now :: time
  strftime :: "time \<Rightarrow> str"
  get_hashtags_response :: "hashtag list response"
  get_messages_response :: "item list response"
  write_response :: "request \<Rightarrow> unit response"
  generate_pdf :: "item list \<Rightarrow> str \<Rightarrow> str option"
  document_outcome :: send_outcome

type_synonym keyboard = "str list list"

datatype event =
    ReplyText str "keyboard option"
  | ReplyDocument str str str
  | HttpCall request
  | GeneratePdf "item list" str
  | RemoveFile str

text \<open>The sender and text of one inbound message (\<open>update.effective_user\<close>, \<open>update.message.text\<close>).\<close>

record update =
  eff_user_id :: int
  eff_username :: "str option"
  eff_first_name :: str
  eff_last_name :: "str option"
  msg_text :: str

text \<open>
  The state the handlers work on: the user store, the sender's \<open>context.user_data\<close>
  dictionary, and the effects performed so far, in order.
\<close>

record world =
  user_store :: users
  user_data :: "string \<rightharpoonup> bool"
  events :: "event list"

datatype outcome = Returned | Raised exn

text \<open>\<open>context.user_data.get(k)\<close> used as a condition.\<close>

definition flag :: "(string \<rightharpoonup> bool) \<Rightarrow> string \<Rightarrow> bool" where
  "flag ud k = (ud k = Some True)"

definition set_flag :: "string \<Rightarrow> bool \<Rightarrow> world \<Rightarrow> world" where
  "set_flag k b w = w\<lparr>user_data := (user_data w)(k \<mapsto> b)\<rparr>"

definition emit :: "event \<Rightarrow> world \<Rightarrow> world" where
  "emit e w = w\<lparr>events := events w @ [e]\<rparr>"

definition nl :: str where
  "nl = [10]"

definition cross :: str where
  "cross = [10060, 32]"

definition get_main_keyboard :: "env \<Rightarrow> string \<Rightarrow> keyboard" where
  "get_main_keyboard env lang =
     [[get_text env ''create_hashtag'' lang, get_text env ''delete_hashtag'' lang],
      [get_text env ''import_list'' lang, get_text env ''help'' lang],
      [get_text env ''language_button'' lang, get_text env ''open_website'' lang],
      [get_text env ''profile'' lang, get_text env ''register'' lang]]"

text \<open>\<open>update.message.reply_text(t, reply_markup=get_main_keyboard(lang))\<close>\<close>

definition reply_menu :: "env \<Rightarrow> string \<Rightarrow> str \<Rightarrow> world \<Rightarrow> world" where
  "reply_menu env lang t w = emit (ReplyText t (Some (get_main_keyboard env lang))) w"

text \<open>\<open>update.message.reply_text(t)\<close>\<close>

definition reply_plain :: "str \<Rightarrow> world \<Rightarrow> world" where
  "reply_plain t w = emit (ReplyText t None) w"

definition get_user_language :: "users \<Rightarrow> int \<Rightarrow> string" where
  "get_user_language us uid = (case get_user us uid of Some u \<Rightarrow> language u | None \<Rightarrow> ''en'')"

definition is_user_registered :: "users \<Rightarrow> int \<Rightarrow> bool" where
  "is_user_registered us uid = (get_user us uid \<noteq> None)"

definition not_registered_text :: "env \<Rightarrow> string \<Rightarrow> str" where
  "not_registered_text env lang =
     get_text env ''profile_not_registered'' lang @ nl @ nl @ get_text env ''profile_register_first'' lang"

subsection \<open>The remote client\<close>

definition website_down :: str where
  "website_down = ascii ''Website is not running. Please start the website first.''"

text \<open>\<open>[word for word in text.split() if word.startswith('#')]\<close>\<close>

definition hashtags_in :: "str \<Rightarrow> str list" where
  "hashtags_in t = filter startswith_hash (split t)"

text \<open>The local \<open>category\<close> of \<open>send_message_to_website\<close>; the default is \<open>#\<close> and a Cyrillic word.\<close>

definition category_of :: "str \<Rightarrow> str" where
  "category_of t =
     (if hashtags_in t \<noteq> [] then hd (hashtags_in t) else [35, 1089, 1083, 1086, 1074, 1072])"

definition send_message_to_website ::
  "env \<Rightarrow> str \<Rightarrow> int \<Rightarrow> str \<Rightarrow> world \<Rightarrow> (bool \<times> str) \<times> world"
where
  "send_message_to_website env t uid uname w =
     (let hashtags = hashtags_in t;
          category = category_of t;
          data = PostMessage t hashtags (str_int uid) uname (now env)
      in ((case write_response env data of
             Response c b \<Rightarrow>
               if c = 200 then (True, ascii ''Message sent successfully!'')
               else (False, ascii ''Error: '' @ ascii (str_int c))
           | ConnectionError \<Rightarrow> (False, website_down)
           | Timeout m \<Rightarrow> (False, ascii ''Error: '' @ m)
           | OtherException m \<Rightarrow> (False, ascii ''Error: '' @ m)),
          emit (HttpCall data) w))"

definition sync_user_to_backend :: "env \<Rightarrow> int \<Rightarrow> world \<Rightarrow> (bool \<times> str) \<times> world" where
  "sync_user_to_backend env uid w =
     (case get_user (user_store w) uid of
        None \<Rightarrow> ((False, ascii ''User not found''), w)
      | Some u \<Rightarrow>
          (let data = PostUser (str_int uid) (username u) (first_name u) (last_name u)
                             (language u) (registered_at u) (stats u)
           in ((case write_response env data of
                  Response c b \<Rightarrow>
                    if c = 200 then (True, ascii ''User synced successfully'')
                    else (False, ascii ''Backend sync failed: '' @ ascii (str_int c))
                | ConnectionError \<Rightarrow> (False, ascii ''Backend not available'')
                | Timeout m \<Rightarrow> (False, ascii ''Sync error: '' @ m)
                | OtherException m \<Rightarrow> (False, ascii ''Sync error: '' @ m)),
               emit (HttpCall data) w)))"

definition create_hashtag :: "env \<Rightarrow> str \<Rightarrow> str \<Rightarrow> world \<Rightarrow> (bool \<times> str) \<times> world" where
  "create_hashtag env hashtag_name description w =
     (let data = PostHashtag hashtag_name description
      in ((case write_response env data of
             Response c b \<Rightarrow>
               if c = 200 then (True, ascii ''Hashtag created successfully!'')
               else if c = 409 then (False, ascii ''Hashtag already exists!'')
               else (False, ascii ''Error: '' @ ascii (str_int c))
           | ConnectionError \<Rightarrow> (False, website_down)
           | Timeout m \<Rightarrow> (False, ascii ''Error: '' @ m)
           | OtherException m \<Rightarrow> (False, ascii ''Error: '' @ m)),
          emit (HttpCall data) w))"

definition delete_hashtag :: "env \<Rightarrow> str \<Rightarrow> world \<Rightarrow> (bool \<times> str) \<times> world" where
  "delete_hashtag env hashtag_name w =
     ((case write_response env (DeleteHashtag hashtag_name) of
         Response c b \<Rightarrow>
           if c = 200 then (True, ascii ''Hashtag deleted successfully!'')
           else if c = 404 then (False, ascii ''Hashtag not found!'')
           else (False, ascii ''Error: '' @ ascii (str_int c))
       | ConnectionError \<Rightarrow> (False, website_down)
       | Timeout m \<Rightarrow> (False, ascii ''Error: '' @ m)
       | OtherException m \<Rightarrow> (False, ascii ''Error: '' @ m)),
      emit (HttpCall (DeleteHashtag hashtag_name)) w)"

text \<open>
  \<open>get_hashtags\<close> and \<open>get_words_by_category\<close> return \<open>(True, list)\<close> or
  \<open>(False, message)\<close>: here \<open>Inr list\<close> and \<open>Inl message\<close>.
\<close>

definition get_hashtags :: "env \<Rightarrow> world \<Rightarrow> (str + hashtag list) \<times> world" where
  "get_hashtags env w =
     ((case get_hashtags_response env of
         Response c hashtags \<Rightarrow>
           if c = 200 then Inr hashtags else Inl (ascii ''Error: '' @ ascii (str_int c))
       | ConnectionError \<Rightarrow> Inl website_down
       | Timeout m \<Rightarrow> Inl (ascii ''Error: '' @ m)
       | OtherException m \<Rightarrow> Inl (ascii ''Error: '' @ m)),
      emit (HttpCall GetHashtags) w)"

definition get_words_by_category :: "env \<Rightarrow> str \<Rightarrow> world \<Rightarrow> (str + item list) \<times> world" where
  "get_words_by_category env category w =
     ((case get_messages_response env of
         Response c messages \<Rightarrow>
           if c = 200 then Inr (filter (\<lambda>msg. msg ''category'' = Some category) messages)
           else Inl (ascii ''Error: '' @ ascii (str_int c))
       | ConnectionError \<Rightarrow> Inl website_down
       | Timeout m \<Rightarrow> Inl (ascii ''Request timed out. Please try again.'')
       | OtherException m \<Rightarrow> Inl (ascii ''Error: '' @ m)),
      emit (HttpCall GetMessages) w)"

subsection \<open>The flows\<close>

text \<open>\<open>"\n".join([f"\<bullet> {h['name']}" for h in hashtags])\<close>, the bullet being U+2022.\<close>

fun join_nl :: "str list \<Rightarrow> str" where
  "join_nl [] = []"
| "join_nl [x] = x"
| "join_nl (x # y # ys) = x @ nl @ join_nl (y # ys)"

definition bullet_list :: "hashtag list \<Rightarrow> str" where
  "bullet_list hashtags = join_nl (map (\<lambda>h. [8226, 32] @ tag_name h) hashtags)"

definition handle_create_hashtag :: "env \<Rightarrow> update \<Rightarrow> world \<Rightarrow> world" where
  "handle_create_hashtag env upd w =
     (let uid = eff_user_id upd;
          t = strip (msg_text upd);
          lang = get_user_language (user_store w) uid
      in if flag (user_data w) ''awaiting_hashtag_create'' then
           (let w1 = set_flag ''awaiting_hashtag_create'' False w;
                parts = split_space1 t;
                hashtag_name = fst parts;
                description = (case snd parts of Some d \<Rightarrow> d | None \<Rightarrow> [])
            in if \<not> startswith_hash hashtag_name then
                 reply_menu env lang
                   (get_text env ''hashtag_must_start'' lang @ nl @ nl @
                    get_text env ''hashtag_example'' lang) w1
               else
                 (case create_hashtag env hashtag_name description w1 of
                    ((success, message), w2) \<Rightarrow>
                      if success then
                        reply_menu env lang
                          (get_text env ''hashtag_created'' lang @ nl @ nl @
                           get_text env ''hashtag_name'' lang @ [32] @ hashtag_name @ nl @
                           get_text env ''description'' lang @ [32] @
                           (if description \<noteq> [] then description
                            else get_text env ''no_description'' lang))
                          (w2\<lparr>user_store := increment_stat uid ''hashtags_created'' (user_store w2)\<rparr>)
                      else reply_menu env lang (cross @ message) w2))
         else
           reply_menu env lang
             (get_text env ''create_hashtag_mode'' lang @ nl @ nl @
              get_text env ''send_hashtag'' lang @ nl @ nl @
              get_text env ''format'' lang @ nl @ nl @
              get_text env ''examples'' lang @ nl @
              get_text env ''new_hashtag_example'' lang @ nl @
              get_text env ''dictionary_example'' lang @ nl @
              get_text env ''grammar_example'' lang)
             (set_flag ''awaiting_hashtag_create'' True w))"

text \<open>
  The first step of the delete and import flows: list the categories, reply, and set
  the flag whatever the listing returned.
\<close>

definition show_hashtags :: "env \<Rightarrow> string \<Rightarrow> string \<Rightarrow> string \<Rightarrow> string \<Rightarrow> string \<Rightarrow> string \<Rightarrow> world \<Rightarrow> world" where
  "show_hashtags env lang mode available send example none_found w =
     (case get_hashtags env w of
        (Inr hashtags, w1) \<Rightarrow>
          if hashtags \<noteq> [] then
            reply_menu env lang
              (get_text env mode lang @ nl @ nl @
               get_text env available lang @ ascii '':'' @ nl @ bullet_list hashtags @ nl @ nl @
               get_text env send lang @ nl @
               get_text env example lang) w1
          else reply_menu env lang (get_text env none_found lang) w1
      | (Inl result, w1) \<Rightarrow> reply_menu env lang (cross @ result) w1)"

definition handle_delete_hashtag :: "env \<Rightarrow> update \<Rightarrow> world \<Rightarrow> world" where
  "handle_delete_hashtag env upd w =
     (let uid = eff_user_id upd;
          t = strip (msg_text upd);
          lang = get_user_language (user_store w) uid
      in if flag (user_data w) ''awaiting_hashtag_delete'' then
           (let w1 = set_flag ''awaiting_hashtag_delete'' False w
            in if \<not> startswith_hash t then
                 reply_menu env lang
                   (get_text env ''hashtag_must_start'' lang @ nl @ nl @
                    get_text env ''delete_example'' lang) w1
               else
                 (case delete_hashtag env t w1 of
                    ((success, message), w2) \<Rightarrow>
                      if success then
                        reply_menu env lang
                          (get_text env ''hashtag_deleted'' lang @ nl @ nl @
                           get_text env ''deleted_hashtag'' lang @ [32] @ t)
                          (w2\<lparr>user_store := increment_stat uid ''hashtags_deleted'' (user_store w2)\<rparr>)
                      else reply_menu env lang (cross @ message) w2))
         else
           set_flag ''awaiting_hashtag_delete'' True
             (show_hashtags env lang ''delete_hashtag_mode'' ''available_hashtags''
                ''send_hashtag_to_delete'' ''delete_example'' ''no_hashtags_found'' w))"

text \<open>
  The second step of the import flow. \<open>increment_stat\<close> is the first statement of the
  \<open>try\<close> block; opening the file, sending it and removing it follow, and a failure of
  any of them leads to the \<open>except\<close> branch.
\<close>

definition send_pdf :: "env \<Rightarrow> string \<Rightarrow> int \<Rightarrow> str \<Rightarrow> item list \<Rightarrow> str \<Rightarrow> world \<Rightarrow> world" where
  "send_pdf env lang uid t words pdf_path w =
     (let w1 = w\<lparr>user_store := increment_stat uid ''pdfs_generated'' (user_store w)\<rparr>;
          document = ReplyDocument pdf_path (t @ ascii ''_word_list.pdf'')
                       ([128196, 32] @ get_text env ''word_list_for'' lang @ [32] @ t @ nl @ nl @
                        get_text env ''total_words'' lang @ ascii '': '' @
                        ascii (str_int (int (length words))) @ nl @
                        get_text env ''generated_on'' lang @ ascii '': '' @ strftime env (now env));
          failed = reply_menu env lang (get_text env ''error_sending_pdf'' lang)
      in case document_outcome env of
           OpenFailed \<Rightarrow> failed w1
         | SendFailed \<Rightarrow> failed w1
         | RemoveFailed \<Rightarrow> failed (emit document w1)
         | Sent \<Rightarrow> emit (RemoveFile pdf_path) (emit document w1))"

definition handle_import_list :: "env \<Rightarrow> update \<Rightarrow> world \<Rightarrow> world" where
  "handle_import_list env upd w =
     (let uid = eff_user_id upd;
          t = strip (msg_text upd);
          lang = get_user_language (user_store w) uid
      in if flag (user_data w) ''awaiting_category_import'' then
           (let w1 = set_flag ''awaiting_category_import'' False w
            in if \<not> startswith_hash t then
                 reply_menu env lang
                   (get_text env ''category_must_start'' lang @ nl @ nl @
                    get_text env ''import_example'' lang) w1
               else
                 (case get_words_by_category env t w1 of
                    (Inr words, w2) \<Rightarrow>
                      if words \<noteq> [] then
                        (let w3 = emit (GeneratePdf words t) w2
                         in case generate_pdf env words t of
                              Some pdf_path \<Rightarrow>
                                if pdf_path \<noteq> [] then send_pdf env lang uid t words pdf_path w3
                                else reply_menu env lang (get_text env ''error_generating_pdf'' lang) w3
                            | None \<Rightarrow>
                                reply_menu env lang (get_text env ''error_generating_pdf'' lang) w3)
                      else
                        reply_menu env lang
                          (get_text env ''no_words_found'' lang @ [32] @ t @ ascii ''.'') w2
                  | (Inl result, w2) \<Rightarrow> reply_menu env lang (cross @ result) w2))
         else
           set_flag ''awaiting_category_import'' True
             (show_hashtags env lang ''import_list_mode'' ''available_categories''
                ''send_category_to_import'' ''import_example'' ''no_categories_found'' w))"

definition handle_open_website :: "env \<Rightarrow> update \<Rightarrow> world \<Rightarrow> world" where
  "handle_open_website env upd w =
     (let lang = get_user_language (user_store w) (eff_user_id upd)
      in reply_menu env lang
           (get_text env ''website_link'' lang @ nl @ nl @ [128279, 32] @
            get_text env ''website_url'' lang) w)"

definition trilingual :: "env \<Rightarrow> string \<Rightarrow> str \<Rightarrow> str" where
  "trilingual env k sep =
     get_text env k ''en'' @ sep @ get_text env k ''ru'' @ sep @ get_text env k ''uz''"

text \<open>The tokens accepted for each language; the non-ASCII ones are Cyrillic words.\<close>

definition english_tokens :: "str list" where
  "english_tokens =
     [ascii ''1'', ascii ''english'', ascii ''en'',
      [1072, 1085, 1075, 1083, 1080, 1081, 1089, 1082, 1080, 1081]]"

definition russian_tokens :: "str list" where
  "russian_tokens =
     [ascii ''2'', [1088, 1091, 1089, 1089, 1082, 1080, 1081], ascii ''ru'', ascii ''russian'']"

definition uzbek_tokens :: "str list" where
  "uzbek_tokens =
     [ascii ''3'', [1091, 1079, 1073, 1077, 1082, 1089, 1082, 1080, 1081], ascii ''uz'',
      ascii ''uzbek'', [111, 39, 122, 98, 101, 107]]"

definition handle_language_selection :: "env \<Rightarrow> update \<Rightarrow> world \<Rightarrow> outcome \<times> world" where
  "handle_language_selection env upd w =
     (let uid = eff_user_id upd;
          t = strip (msg_text upd)
      in if \<not> is_user_registered (user_store w) uid then
           (Returned, reply_plain (not_registered_text env ''en'') w)
         else
           (case update_user_activity (now env) uid (user_store w) of
              (Some e, us) \<Rightarrow> (Raised e, w\<lparr>user_store := us\<rparr>)
            | (None, us) \<Rightarrow>
                (let w1 = w\<lparr>user_store := us\<rparr>
                 in if flag (user_data w1) ''awaiting_language'' then
                      (let w2 = set_flag ''awaiting_language'' False w1;
                           lang_choice = strip (lower env t)
                       in if lang_choice \<in> set english_tokens then
                            (Returned,
                             reply_menu env ''en'' (get_text env ''language_set_english'' ''en'')
                               (w2\<lparr>user_store := update_user_language (now env) uid ''en'' (user_store w2)\<rparr>))
                          else if lang_choice \<in> set russian_tokens then
                            (Returned,
                             reply_menu env ''ru'' (get_text env ''language_set_russian'' ''ru'')
                               (w2\<lparr>user_store := update_user_language (now env) uid ''ru'' (user_store w2)\<rparr>))
                          else if lang_choice \<in> set uzbek_tokens then
                            (Returned,
                             reply_menu env ''uz'' (get_text env ''language_set_uzbek'' ''uz'')
                               (w2\<lparr>user_store := update_user_language (now env) uid ''uz'' (user_store w2)\<rparr>))
                          else
                            (Returned,
                             reply_menu env ''en'' (trilingual env ''invalid_language_choice'' nl) w2))
                    else
                      (Returned,
                       reply_menu env ''en''
                         (trilingual env ''choose_language'' (ascii '' / '') @ ascii '':'' @ nl @ nl @
                          ascii ''1. '' @ trilingual env ''english_option'' (ascii '' / '') @ nl @
                          ascii ''2. '' @ trilingual env ''russian_option'' (ascii '' / '') @ nl @
                          ascii ''3. '' @ trilingual env ''uzbek_option'' (ascii '' / '') @ nl @ nl @
                          trilingual env ''send_number_or_name'' nl)
                         (set_flag ''awaiting_language'' True w1)))))"

subsection \<open>Commands\<close>

definition register_command :: "env \<Rightarrow> update \<Rightarrow> world \<Rightarrow> world" where
  "register_command env upd w =
     (let uid = eff_user_id upd
      in if is_user_registered (user_store w) uid then
           (let lang = get_user_language (user_store w) uid
            in reply_menu env lang (get_text env ''user_already_registered'' lang) w)
         else
           (case register_user (now env) (now env) uid (eff_username upd)
                   (Some (eff_first_name upd)) (eff_last_name upd) (user_store w) of
              (success, us) \<Rightarrow>
                if success then
                  (let lang = ''en'';
                       w1 = w\<lparr>user_store := update_user_language (now env) uid lang us\<rparr>
                   in case sync_user_to_backend env uid w1 of
                        ((sync_success, sync_message), w2) \<Rightarrow>
                          (let welcome_message =
                                 get_text env ''registration_successful'' lang @ nl @ nl @
                                 get_text env ''registration_welcome'' lang
                           in reply_menu env lang
                                (if sync_success then
                                   welcome_message @ nl @ nl @ [9989, 32] @
                                   (if ''user_synced_backend'' \<in> LANGUAGES env lang
                                    then get_text env ''user_synced_backend'' lang
                                    else ascii ''User data synced to website'')
                                 else
                                   welcome_message @ nl @ nl @ [9888, 65039, 32] @
                                   (if ''user_sync_failed'' \<in> LANGUAGES env lang
                                    then get_text env ''user_sync_failed'' lang
                                    else ascii ''User data sync failed (website offline)''))
                                w2))
                else
                  reply_plain (cross @ ascii ''Registration failed. Please try again.'')
                    (w\<lparr>user_store := us\<rparr>)))"

text \<open>How an f-string shows an optional value: \<open>None\<close> prints as the word.\<close>

definition show_opt :: "str option \<Rightarrow> str" where
  "show_opt x = (case x of None \<Rightarrow> ascii ''None'' | Some t \<Rightarrow> t)"

text \<open>\<open>days_registered\<close>: the \<open>days\<close> of the difference, rounded down, instants being microseconds.\<close>

definition days_registered :: "time \<Rightarrow> time \<Rightarrow> int" where
  "days_registered t registered = (t - registered) div 86400000000"

text \<open>One line of the statistics block; reading a missing counter raises \<open>KeyError\<close>.\<close>

definition stat_line :: "env \<Rightarrow> string \<Rightarrow> string \<Rightarrow> string \<Rightarrow> (string \<rightharpoonup> int) \<Rightarrow> exn + str" where
  "stat_line env lang label k st =
     (case st k of
        None \<Rightarrow> Inl (KeyError k)
      | Some n \<Rightarrow> Inr ([8226, 32] @ get_text env label lang @ ascii '': '' @ ascii (str_int n)))"

fun stat_lines :: "env \<Rightarrow> string \<Rightarrow> (string \<times> string) list \<Rightarrow> (string \<rightharpoonup> int) \<Rightarrow> exn + str list" where
  "stat_lines env lang [] st = Inr []"
| "stat_lines env lang ((label, k) # rest) st =
     (case stat_line env lang label k st of
        Inl e \<Rightarrow> Inl e
      | Inr l \<Rightarrow> (case stat_lines env lang rest st of Inl e \<Rightarrow> Inl e | Inr ls \<Rightarrow> Inr (l # ls)))"

definition profile_command :: "env \<Rightarrow> update \<Rightarrow> world \<Rightarrow> outcome \<times> world" where
  "profile_command env upd w =
     (let uid = eff_user_id upd
      in case get_user (user_store w) uid of
           None \<Rightarrow>
             (Returned, reply_plain (not_registered_text env (get_user_language (user_store w) uid)) w)
         | Some u \<Rightarrow>
             (let lang = language u;
                  profile_message =
                    get_text env ''profile_title'' lang @ nl @ nl @
                    get_text env ''profile_username'' lang @ [32] @ show_opt (username u) @ nl @
                    get_text env ''profile_name'' lang @ [32] @ show_opt (first_name u) @
                    (case last_name u of
                       None \<Rightarrow> []
                     | Some l \<Rightarrow> if l \<noteq> [] then [32] @ l else []) @
                    nl @ get_text env ''profile_language'' lang @ [32] @ upper env (ascii lang) @ nl @
                    get_text env ''profile_registered'' lang @ [32] @ strftime env (registered_at u) @ nl @
                    ascii ''('' @ ascii (str_int (days_registered (now env) (registered_at u))) @ [32] @
                    get_text env ''profile_days'' lang @ ascii '')'' @ nl @ nl @
                    get_text env ''profile_stats'' lang @ nl
              in case stat_lines env lang
                        [(''profile_words_saved'', ''words_saved''),
                         (''profile_hashtags_created'', ''hashtags_created''),
                         (''profile_hashtags_deleted'', ''hashtags_deleted''),
                         (''profile_pdfs_generated'', ''pdfs_generated''),
                         (''profile_total_messages'', ''total_messages'')] (stats u) of
                   Inl e \<Rightarrow> (Raised e, w)
                 | Inr ls \<Rightarrow> (Returned, reply_menu env lang (profile_message @ join_nl ls) w)))"

text \<open>
  The text of \<open>/help\<close>; the five bullet lines name Cyrillic hashtags written in the
  source.
\<close>

definition help_message :: "env \<Rightarrow> string \<Rightarrow> str" where
  "help_message env lang =
     get_text env ''welcome'' lang @ nl @ nl @
     get_text env ''welcome_desc'' lang @ nl @ nl @
     get_text env ''hashtag_help'' lang @ nl @
     [8226, 32, 35, 1079, 1072, 1084, 1077, 1090, 1082, 1072, 32, 45, 32] @
       get_text env ''notes'' lang @ nl @
     [8226, 32, 35, 1088, 1072, 1079, 1073, 1086, 1088, 1082, 1072, 32, 45, 32] @
       get_text env ''grammar_analysis'' lang @ nl @
     [8226, 32, 35, 1092, 1088, 1072, 1079, 1099, 32, 45, 32] @
       get_text env ''useful_phrases'' lang @ nl @
     [8226, 32, 35, 1089, 1083, 1086, 1074, 1072, 32, 45, 32] @
       get_text env ''new_words'' lang @ nl @
     [8226, 32, 35, 1075, 1088, 1072, 1084, 1084, 1072, 1090, 1080, 1082, 1072, 32, 45, 32] @
       get_text env ''grammar_rules'' lang @ nl @ nl @
     get_text env ''example'' lang"

definition help_command :: "env \<Rightarrow> update \<Rightarrow> world \<Rightarrow> outcome \<times> world" where
  "help_command env upd w =
     (let uid = eff_user_id upd
      in if \<not> is_user_registered (user_store w) uid then
           (Returned, reply_plain (not_registered_text env ''en'') w)
         else
           (let lang = get_user_language (user_store w) uid
            in case update_user_activity (now env) uid (user_store w) of
                 (Some e, us) \<Rightarrow> (Raised e, w\<lparr>user_store := us\<rparr>)
               | (None, us) \<Rightarrow>
                   (Returned, reply_menu env lang (help_message env lang) (w\<lparr>user_store := us\<rparr>))))"

subsection \<open>The dispatcher\<close>

text \<open>\<open>update.effective_user.username or update.effective_user.first_name\<close>\<close>

definition sender_name :: "update \<Rightarrow> str" where
  "sender_name upd =
     (case eff_username upd of
        None \<Rightarrow> eff_first_name upd
      | Some n \<Rightarrow> if n \<noteq> [] then n else eff_first_name upd)"

text \<open>The branch of \<open>handle_message\<close> taken when the text holds a hashtag.\<close>

definition handle_tagged_note :: "env \<Rightarrow> update \<Rightarrow> string \<Rightarrow> str \<Rightarrow> world \<Rightarrow> world" where
  "handle_tagged_note env upd lang t w =
     (let uid = eff_user_id upd;
          hashtags = hashtags_in t
      in case send_message_to_website env t uid (sender_name upd) w of
           ((success, message), w1) \<Rightarrow>
             if success then
               reply_menu env lang
                 (get_text env ''word_saved'' lang @ nl @ nl @
                  get_text env ''word'' lang @ ascii '': '' @ t @ nl @
                  get_text env ''category'' lang @ ascii '': '' @ hd hashtags @ nl @ nl @
                  get_text env ''check_website'' lang)
                 (w1\<lparr>user_store := increment_stat uid ''words_saved'' (user_store w1)\<rparr>)
             else
               reply_menu env lang
                 (cross @ message @ nl @ nl @ get_text env ''website_not_running'' lang) w1)"

text \<open>The chain of comparisons with the button labels, and its last branch.\<close>

definition handle_menu :: "env \<Rightarrow> update \<Rightarrow> string \<Rightarrow> str \<Rightarrow> world \<Rightarrow> outcome \<times> world" where
  "handle_menu env upd lang lower_text w =
     (if lower_text = lower env (get_text env ''help'' lang) then help_command env upd w
      else if lower_text = lower env (get_text env ''create_hashtag'' lang) then
        (Returned, handle_create_hashtag env upd w)
      else if lower_text = lower env (get_text env ''delete_hashtag'' lang) then
        (Returned, handle_delete_hashtag env upd w)
      else if lower_text = lower env (get_text env ''import_list'' lang) then
        (Returned, handle_import_list env upd w)
      else if lower_text = lower env (get_text env ''language_button'' lang) then
        handle_language_selection env upd w
      else if lower_text = lower env (get_text env ''open_website'' lang) then
        (Returned, handle_open_website env upd w)
      else if lower_text = lower env (get_text env ''profile'' lang) then profile_command env upd w
      else if lower_text = lower env (get_text env ''register'' lang) then
        (Returned, register_command env upd w)
      else
        (Returned,
         reply_menu env lang
           (get_text env ''send_hashtag_message'' lang @ nl @ nl @
            get_text env ''examples'' lang @ ascii '':'' @ nl @
            (if (''examples_'' @ lang) \<in> LANGUAGES env lang
             then get_text env (''examples_'' @ lang) lang
             else get_text env ''examples_en'' lang)) w))"

definition handle_message :: "env \<Rightarrow> update \<Rightarrow> world \<Rightarrow> outcome \<times> world" where
  "handle_message env upd w =
     (let uid = eff_user_id upd;
          t = strip (msg_text upd);
          lower_text = lower env t
      in if \<not> is_user_registered (user_store w) uid then
           (if lower_text = lower env (get_text env ''register'' ''en'') then
              (Returned, register_command env upd w)
            else (Returned, reply_plain (not_registered_text env ''en'') w))
         else
           (let lang = get_user_language (user_store w) uid
            in case update_user_activity (now env) uid (user_store w) of
                 (Some e, us) \<Rightarrow> (Raised e, w\<lparr>user_store := us\<rparr>)
               | (None, us) \<Rightarrow>
                   (let w1 = w\<lparr>user_store := us\<rparr>
                    in if flag (user_data w1) ''awaiting_hashtag_create'' then
                         (Returned, handle_create_hashtag env upd w1)
                       else if flag (user_data w1) ''awaiting_hashtag_delete'' then
                         (Returned, handle_delete_hashtag env upd w1)
                       else if flag (user_data w1) ''awaiting_category_import'' then
                         (Returned, handle_import_list env upd w1)
                       else if flag (user_data w1) ''awaiting_language'' then
                         handle_language_selection env upd w1
                       else if hashtags_in t \<noteq> [] then
                         (Returned, handle_tagged_note env upd lang t w1)
                       else handle_menu env upd lang lower_text w1)))"

subsection \<open>The session state\<close>

text \<open>
  The pending flow, read off the four flags in the order in which the dispatcher tests
  them.
\<close>

datatype session =
  Idle | AwaitingHashtagCreate | AwaitingHashtagDelete | AwaitingCategoryImport | AwaitingLanguageChoice

definition session_state :: "(string \<rightharpoonup> bool) \<Rightarrow> session" where
  "session_state ud =
     (if flag ud ''awaiting_hashtag_create'' then AwaitingHashtagCreate
      else if flag ud ''awaiting_hashtag_delete'' then AwaitingHashtagDelete
      else if flag ud ''awaiting_category_import'' then AwaitingCategoryImport
      else if flag ud ''awaiting_language'' then AwaitingLanguageChoice
      else Idle)"

definition flow_flags :: "string list" where
  "flow_flags =
     [''awaiting_hashtag_create'', ''awaiting_hashtag_delete'', ''awaiting_category_import'',
      ''awaiting_language'']"

text \<open>At most one flow is pending.\<close>

definition single_flow :: "(string \<rightharpoonup> bool) \<Rightarrow> bool" where
  "single_flow ud \<longleftrightarrow> length (filter (flag ud) flow_flags) \<le> 1"

text \<open>The handler that the dispatcher runs for a pending flow.\<close>

fun flow_handler :: "session \<Rightarrow> env \<Rightarrow> update \<Rightarrow> world \<Rightarrow> outcome \<times> world" where
  "flow_handler AwaitingHashtagCreate env upd w = (Returned, handle_create_hashtag env upd w)"
| "flow_handler AwaitingHashtagDelete env upd w = (Returned, handle_delete_hashtag env upd w)"
| "flow_handler AwaitingCategoryImport env upd w = (Returned, handle_import_list env upd w)"
| "flow_handler AwaitingLanguageChoice env upd w = handle_language_selection env upd w"
| "flow_handler Idle env upd w = (Returned, w)"

text \<open>Reading a counter of a user; users and counters that do not exist read as \<open>None\<close>.\<close>

definition counter :: "users \<Rightarrow> int \<Rightarrow> string \<Rightarrow> int option" where
  "counter us uid k = (case get_user us uid of None \<Rightarrow> None | Some u \<Rightarrow> stats u k)"


fun is_pdf :: "event \<Rightarrow> bool" where
  "is_pdf (GeneratePdf ws c) = True"
| "is_pdf e = False"

text \<open>
  Every record of the store has exactly the five counters. This holds of the empty
  store and is kept by every function of the store.
\<close>

definition wf_users :: "users \<Rightarrow> bool" where
  "wf_users us \<longleftrightarrow> (\<forall>u \<in> ran us. dom (stats u) = set stat_names)"

subsection \<open>Vocabulary of the properties\<close>

text \<open>The store after a call of \<open>update_user_activity\<close>.\<close>

definition touch :: "time \<Rightarrow> int \<Rightarrow> users \<Rightarrow> users" where
  "touch t uid us = snd (update_user_activity t uid us)"

text \<open>A registered sender in a store whose records have the five counters.\<close>

definition registered_in :: "world \<Rightarrow> update \<Rightarrow> bool" where
  "registered_in w upd \<longleftrightarrow>
     wf_users (user_store w) \<and> is_user_registered (user_store w) (eff_user_id upd)"

text \<open>The flag that stands for a pending flow.\<close>

definition flag_of :: "session \<Rightarrow> string" where
  "flag_of s =
     (case s of
        AwaitingHashtagCreate \<Rightarrow> ''awaiting_hashtag_create''
      | AwaitingHashtagDelete \<Rightarrow> ''awaiting_hashtag_delete''
      | AwaitingCategoryImport \<Rightarrow> ''awaiting_category_import''
      | AwaitingLanguageChoice \<Rightarrow> ''awaiting_language''
      | Idle \<Rightarrow> [])"

text \<open>The events that a handler has added to those of the world it started from.\<close>

definition new_events :: "world \<Rightarrow> world \<Rightarrow> event list" where
  "new_events w w' = drop (length (events w)) (events w')"

text \<open>Requests of the tagged-note branch, and requests that create a hashtag.\<close>

fun is_post_message :: "event \<Rightarrow> bool" where
  "is_post_message (HttpCall (PostMessage t hs uid un ts)) = True"
| "is_post_message e = False"

fun is_post_hashtag :: "event \<Rightarrow> bool" where
  "is_post_hashtag (HttpCall (PostHashtag n d)) = True"
| "is_post_hashtag e = False"

text \<open>
  \<open>quiet w w'\<close>: the world \<open>w'\<close> has the events of \<open>w\<close> and then some more, none of which
  is a request to create a hashtag.
\<close>

definition quiet :: "world \<Rightarrow> world \<Rightarrow> bool" where
  "quiet w w' \<longleftrightarrow> (\<exists>xs. events w' = events w @ xs \<and> filter is_post_hashtag xs = [])"

subsection \<open>A concrete environment\<close>

text \<open>
  An environment, a registered user and messages on which the properties below are
  exercised: the translation of a key is the key followed by a dot and the language
  code, case mapping is that of the ASCII letters, and the remote service answers 200.
\<close>

definition ascii_lower :: "str \<Rightarrow> str" where
  "ascii_lower t = map (\<lambda>c. if 65 \<le> c \<and> c \<le> 90 then c + 32 else c) t"

definition ascii_upper :: "str \<Rightarrow> str" where
  "ascii_upper t = map (\<lambda>c. if 97 \<le> c \<and> c \<le> 122 then c - 32 else c) t"

definition example_env :: env where
  "example_env =
     \<lparr>get_text = (\<lambda>k lang. ascii k @ ascii ''.'' @ ascii lang),
      LANGUAGES = (\<lambda>lang. {}),
      lower = ascii_lower,
      upper = ascii_upper,
      now = 1000,
      strftime = (\<lambda>t. ascii (str_int t)),
      get_hashtags_response = Response 200 [],
      get_messages_response = Response 200 [],
      write_response = (\<lambda>r. Response 200 ()),
      generate_pdf = (\<lambda>ws c. Some (ascii ''/tmp/list.pdf'')),
      document_outcome = Sent\<rparr>"

definition example_user :: user where
  "example_user =
     \<lparr>user_id = 7, username = Some (ascii ''ann''), first_name = Some (ascii ''Ann''),
      last_name = None, language = ''ru'', registered_at = 100, last_activity = 101,
      stats = initial_stats, preferences = initial_preferences\<rparr>"

definition example_world :: "(string \<rightharpoonup> bool) \<Rightarrow> world" where
  "example_world ud = \<lparr>user_store = [str_int 7 \<mapsto> example_user], user_data = ud, events = []\<rparr>"

definition example_update :: "str \<Rightarrow> update" where
  "example_update t =
     \<lparr>eff_user_id = 7, eff_username = Some (ascii ''ann''), eff_first_name = ascii ''Ann'',
      eff_last_name = None, msg_text = t\<rparr>"


definition example_items :: "item list" where
  "example_items =
     [[''category'' \<mapsto> ascii ''#words'', ''text'' \<mapsto> ascii ''cat #words''],
      [''category'' \<mapsto> ascii ''#verbs'', ''text'' \<mapsto> ascii ''run #verbs'']]"

section \<open>Properties of the user store\<close>

subsection \<open>Keys\<close>

lemma digits_ne: "digits n \<noteq> []"
  by (subst digits.simps) simp

lemma digit_char_inj:
  assumes "a < 10" "b < 10" "(char_of (48 + a) :: char) = char_of (48 + b)"
  shows "a = (b::nat)"
proof -
  have "of_char (char_of (48 + a) :: char) = (of_char (char_of (48 + b) :: char) :: nat)"
    using assms(3) by simp
  then show ?thesis using assms(1,2) by (simp add: of_char_of)
qed

lemma digits_inj: "digits m = digits n \<Longrightarrow> m = n"
proof (induction m arbitrary: n rule: digits.induct)
  case (1 m)
  show ?case
  proof (cases "m < 10")
    case True
    show ?thesis
    proof (cases "n < 10")
      case n: True
      from "1.prems" True n have "(char_of (48 + m) :: char) = char_of (48 + n)"
        by (simp add: digits.simps[of m] digits.simps[of n])
      then show ?thesis using True n digit_char_inj by blast
    next
      case n: False
      from "1.prems" True n show ?thesis
        by (simp add: digits.simps[of m] digits.simps[of n] digits_ne digits_ne[symmetric])
    qed
  next
    case False
    show ?thesis
    proof (cases "n < 10")
      case n: True
      from "1.prems" False n show ?thesis
        by (simp add: digits.simps[of m] digits.simps[of n] digits_ne)
    next
      case n: False
      from "1.prems" False n
      have a: "digits (m div 10) = digits (n div 10)"
        and b: "(char_of (48 + m mod 10) :: char) = char_of (48 + n mod 10)"
        by (simp_all add: digits.simps[of m] digits.simps[of n])
      from "1.IH"[OF False a] have "m div 10 = n div 10" .
      moreover from b have "m mod 10 = n mod 10"
        by (intro digit_char_inj) simp_all
      ultimately show ?thesis by (metis div_mult_mod_eq)
    qed
  qed
qed

lemma digits_hd: "hd (digits n) \<noteq> CHR ''-''"
proof (induction n rule: digits.induct)
  case (1 n)
  show ?case
  proof (cases "n < 10")
    case True
    have "of_char (char_of (48 + n) :: char) \<noteq> (of_char CHR ''-'' :: nat)"
      using True by (simp add: of_char_of)
    then have "(char_of (48 + n) :: char) \<noteq> CHR ''-''" by metis
    then show ?thesis using True by (simp add: digits.simps[of n])
  next
    case False
    then show ?thesis using "1.IH" by (simp add: digits.simps[of n] digits_ne)
  qed
qed

lemma str_int_inj: "str_int i = str_int j \<Longrightarrow> i = j"
proof -
  assume a: "str_int i = str_int j"
  have ne: "\<And>n m. digits n \<noteq> CHR ''-'' # digits m"
    using digits_hd by (metis list.sel(1))
  show ?thesis
  proof (cases "i < 0")
    case True
    show ?thesis
    proof (cases "j < 0")
      case j: True
      from a True j have "nat (- i) = nat (- j)" by (simp add: str_int_def digits_inj)
      then show ?thesis using True j by simp
    next
      case j: False
      from a True j ne show ?thesis by (simp add: str_int_def) metis
    qed
  next
    case False
    show ?thesis
    proof (cases "j < 0")
      case j: True
      from a False j ne show ?thesis by (simp add: str_int_def)
    next
      case j: False
      from a False j have "nat i = nat j" by (simp add: str_int_def digits_inj)
      then show ?thesis using False j by simp
    qed
  qed
qed

subsection \<open>The counters of every record\<close>

lemma dom_initial_stats: "dom initial_stats = set stat_names"
  by (auto simp: initial_stats_def stat_names_def split: if_splits)

lemma wf_users_empty: "wf_users Map.empty"
  by (simp add: wf_users_def)

lemma wf_users_upd: "wf_users us \<Longrightarrow> dom (stats u) = set stat_names \<Longrightarrow> wf_users (us(k \<mapsto> u))"
  by (auto simp: wf_users_def ran_def split: if_splits)

lemma wf_users_lookup: "wf_users us \<Longrightarrow> us k = Some u \<Longrightarrow> dom (stats u) = set stat_names"
  by (auto simp: wf_users_def ran_def)

lemma wf_register_user: "wf_users us \<Longrightarrow> wf_users (snd (register_user t1 t2 uid a b c us))"
  by (simp add: register_user_def Let_def wf_users_upd dom_initial_stats)

lemma dom_upd_same: "m k = Some v \<Longrightarrow> dom (m(k \<mapsto> v')) = dom m"
  by auto

lemma wf_users_stats_upd:
  assumes "wf_users us" "us k' = Some u" "stats u k = Some n" "stats u' = (stats u)(k \<mapsto> v)"
  shows "wf_users (us(k'' \<mapsto> u'))"
proof -
  have "dom (stats u') = dom (stats u)"
    using assms(3,4) by auto
  then show ?thesis
    using assms(1,2) wf_users_lookup wf_users_upd by metis
qed

lemma wf_increment_stat: "wf_users us \<Longrightarrow> wf_users (increment_stat uid k us)"
  by (auto simp: increment_stat_def split: option.splits intro: wf_users_stats_upd)

lemma wf_update_user_language: "wf_users us \<Longrightarrow> wf_users (update_user_language t uid l us)"
  by (simp add: update_user_language_def wf_users_upd wf_users_lookup split: option.splits)

lemma wf_update_user_activity:
  assumes wf: "wf_users us"
  shows "wf_users (snd (update_user_activity t uid us))"
proof (cases "us (str_int uid)")
  case None
  then show ?thesis using wf by (simp add: update_user_activity_def)
next
  case (Some u)
  show ?thesis
  proof (cases "stats u ''total_messages''")
    case None
    have "wf_users (us(str_int uid \<mapsto> u\<lparr>last_activity := t\<rparr>))"
      using wf Some wf_users_lookup by (intro wf_users_upd) auto
    then show ?thesis using Some None by (simp add: update_user_activity_def)
  next
    case (Some n)
    have "wf_users (us(str_int uid \<mapsto>
            u\<lparr>last_activity := t, stats := (stats u)(''total_messages'' \<mapsto> n + 1)\<rparr>))"
      using wf \<open>us (str_int uid) = Some u\<close> Some by (rule wf_users_stats_upd) simp
    then show ?thesis
      using \<open>us (str_int uid) = Some u\<close> Some by (simp add: update_user_activity_def)
  qed
qed

lemma get_user_inj: "get_user (us(str_int uid \<mapsto> u)) uid' = (if uid' = uid then Some u else get_user us uid')"
  using str_int_inj by (auto simp: get_user_def)

subsection \<open>Registration\<close>

text \<open>
  C2. The first \<open>register_user\<close> call for an absent user id returns \<open>True\<close> and adds
  exactly one record, under the key of that id, whose counters are the five fixed ones,
  all zero; every other key is left as it was. A second call for the same id, whatever
  its other arguments, returns \<open>False\<close> and leaves the whole store unchanged.
\<close>

theorem register_user_twice:
  assumes "\<not> is_user_registered us uid"
  shows "fst (register_user t1 t2 uid a b c us) \<and>
         dom (snd (register_user t1 t2 uid a b c us)) = insert (str_int uid) (dom us) \<and>
         (\<forall>k. k \<noteq> str_int uid \<longrightarrow> snd (register_user t1 t2 uid a b c us) k = us k) \<and>
         (\<forall>uid'. uid' \<noteq> uid \<longrightarrow> get_user (snd (register_user t1 t2 uid a b c us)) uid' = get_user us uid') \<and>
         (\<exists>u. get_user (snd (register_user t1 t2 uid a b c us)) uid = Some u \<and>
              dom (stats u) = set stat_names \<and> (\<forall>k \<in> set stat_names. stats u k = Some 0)) \<and>
         register_user t3 t4 uid a' b' c' (snd (register_user t1 t2 uid a b c us)) =
           (False, snd (register_user t1 t2 uid a b c us))"
proof -
  have z: "\<forall>k \<in> set stat_names. initial_stats k = Some 0"
    by (simp add: initial_stats_def stat_names_def)
  from assms have n: "us (str_int uid) = None"
    by (simp add: is_user_registered_def get_user_def)
  then have r: "register_user t1 t2 uid a b c us =
      (True, us(str_int uid \<mapsto> \<lparr>user_id = uid, username = a, first_name = b, last_name = c,
            language = ''en'', registered_at = t1, last_activity = t2,
            stats = initial_stats, preferences = initial_preferences\<rparr>))"
    by (simp add: register_user_def)
  show ?thesis
    unfolding r using z
    by (simp add: get_user_inj dom_initial_stats register_user_def)
qed

theorem register_user_twice_witness:
  "\<not> is_user_registered Map.empty 7 \<and>
   fst (register_user 100 101 7 None None None Map.empty) \<and>
   counter (snd (register_user 100 101 7 None None None Map.empty)) 7 ''pdfs_generated'' = Some 0 \<and>
   register_user 200 201 7 None None None (snd (register_user 100 101 7 None None None Map.empty)) =
     (False, snd (register_user 100 101 7 None None None Map.empty))"
  using register_user_twice [of Map.empty 7 100 101 None None None 200 201 None None None]
  by (auto simp: is_user_registered_def get_user_def counter_def stat_names_def)

subsection \<open>Counters\<close>

lemma counter_increment_stat:
  "counter (increment_stat uid k us) uid' k' =
     (if uid' = uid \<and> k' = k then map_option (\<lambda>n. n + 1) (counter us uid k)
      else counter us uid' k')"
  using str_int_inj
  by (auto simp: counter_def increment_stat_def get_user_def split: option.splits)

lemma counter_increment_stats:
  "counter (increment_stats calls us) uid k =
     map_option (\<lambda>n. n + int (count_list calls (uid, k))) (counter us uid k)"
proof (induction calls arbitrary: us)
  case Nil
  show ?case by (simp add: option.map_ident)
next
  case (Cons c calls)
  obtain uid' k' where c: "c = (uid', k')" by (cases c)
  show ?case
    by (cases "counter us uid k") (auto simp: c Cons.IH counter_increment_stat)
qed

lemma counter_wf:
  assumes "wf_users us"
  shows "counter us uid k \<noteq> None \<longleftrightarrow> is_user_registered us uid \<and> k \<in> set stat_names"
proof (cases "get_user us uid")
  case None
  then show ?thesis by (simp add: counter_def is_user_registered_def)
next
  case (Some u)
  then have "dom (stats u) = set stat_names"
    using assms wf_users_lookup by (simp add: get_user_def)
  then show ?thesis using Some by (auto simp: counter_def is_user_registered_def)
qed

lemma increment_stat_noop: "counter us uid k = None \<Longrightarrow> increment_stat uid k us = us"
  by (simp add: counter_def increment_stat_def get_user_def split: option.splits)

text \<open>
  C5. In a store whose records have the five counters: a call of \<open>increment_stat\<close> for
  a registered user and one of the five counter names adds exactly 1 to that counter
  and leaves every other counter of every user as it was; a call for an absent user or
  an unknown name leaves the store unchanged; and after any sequence of calls the
  counter equals its initial value plus the number of calls of the sequence that name
  this user and this counter.
\<close>

theorem increment_stat_counts:
  assumes "wf_users us"
  shows "(is_user_registered us uid \<and> k \<in> set stat_names \<longrightarrow>
            (\<exists>n. counter us uid k = Some n \<and>
                 counter (increment_stat uid k us) uid k = Some (n + 1) \<and>
                 counter (increment_stats calls us) uid k =
                   Some (n + int (count_list calls (uid, k))))) \<and>
         (\<forall>uid' k'. (uid', k') \<noteq> (uid, k) \<longrightarrow>
            counter (increment_stat uid k us) uid' k' = counter us uid' k') \<and>
         (\<not> is_user_registered us uid \<or> k \<notin> set stat_names \<longrightarrow> increment_stat uid k us = us)"
proof (intro conjI impI allI)
  assume "is_user_registered us uid \<and> k \<in> set stat_names"
  then obtain n where n: "counter us uid k = Some n"
    using counter_wf [OF assms, of uid k] by auto
  then show "\<exists>n. counter us uid k = Some n \<and>
                 counter (increment_stat uid k us) uid k = Some (n + 1) \<and>
                 counter (increment_stats calls us) uid k =
                   Some (n + int (count_list calls (uid, k)))"
    by (simp add: counter_increment_stat counter_increment_stats)
next
  fix uid' k'
  assume "(uid', k') \<noteq> (uid, k)"
  then show "counter (increment_stat uid k us) uid' k' = counter us uid' k'"
    by (auto simp: counter_increment_stat)
next
  assume "\<not> is_user_registered us uid \<or> k \<notin> set stat_names"
  then have "counter us uid k = None"
    using counter_wf [OF assms, of uid k] by blast
  then show "increment_stat uid k us = us" by (rule increment_stat_noop)
qed

theorem increment_stat_counts_witness:
  "wf_users (snd (register_user 100 101 7 None None None Map.empty)) \<and>
   counter (increment_stats
     [(7, ''words_saved''), (8, ''words_saved''), (7, ''bogus''), (7, ''words_saved'')]
     (snd (register_user 100 101 7 None None None Map.empty))) 7 ''words_saved'' = Some 2 \<and>
   increment_stat 8 ''words_saved'' (snd (register_user 100 101 7 None None None Map.empty)) =
     snd (register_user 100 101 7 None None None Map.empty)"
proof -
  let ?us = "snd (register_user 100 101 7 None None None Map.empty)"
  let ?calls = "[(7::int, ''words_saved''), (8, ''words_saved''), (7, ''bogus''), (7, ''words_saved'')]"
  have wf: "wf_users ?us"
    by (rule wf_register_user [OF wf_users_empty])
  have reg: "is_user_registered ?us 7" "\<not> is_user_registered ?us 8"
    using str_int_inj [of 8 7]
    by (auto simp: is_user_registered_def get_user_def register_user_def)
  have c0: "counter ?us 7 ''words_saved'' = Some 0"
    by (simp add: counter_def get_user_def register_user_def initial_stats_def)
  have k: "''words_saved'' \<in> set stat_names"
    by (simp add: stat_names_def)
  from increment_stat_counts [OF wf, of 7 "''words_saved''" ?calls] reg(1) k c0
  have "counter (increment_stats ?calls ?us) 7 ''words_saved'' = Some 2" by simp
  moreover from increment_stat_counts [OF wf, of 8 "''words_saved''" ?calls] reg(2)
  have "increment_stat 8 ''words_saved'' ?us = ?us" by simp
  ultimately show ?thesis using wf by simp
qed

subsection \<open>Activity\<close>

lemma update_user_activity_registered:
  assumes "get_user us uid = Some u" "stats u ''total_messages'' = Some n"
  shows "update_user_activity t uid us =
           (None, us(str_int uid \<mapsto>
              u\<lparr>last_activity := t, stats := (stats u)(''total_messages'' \<mapsto> n + 1)\<rparr>))"
  using assms by (simp add: update_user_activity_def get_user_def)

lemma update_user_activity_absent:
  "\<not> is_user_registered us uid \<Longrightarrow> update_user_activity t uid us = (None, us)"
  by (simp add: update_user_activity_def is_user_registered_def get_user_def)

lemma update_user_activities_all:
  assumes "get_user us uid = Some u" "stats u ''total_messages'' = Some n"
  shows "\<exists>us' u'. update_user_activities ts uid us = (None, us') \<and>
           get_user us' uid = Some u' \<and>
           stats u' ''total_messages'' = Some (n + int (length ts)) \<and>
           registered_at u' = registered_at u \<and>
           last_activity u' = (if ts = [] then last_activity u else last ts)"
  using assms
proof (induction ts arbitrary: us u n)
  case Nil
  then show ?case by simp
next
  case (Cons t ts)
  let ?u1 = "u\<lparr>last_activity := t, stats := (stats u)(''total_messages'' \<mapsto> n + 1)\<rparr>"
  let ?us1 = "us(str_int uid \<mapsto> ?u1)"
  have step: "update_user_activity t uid us = (None, ?us1)"
    using Cons.prems by (rule update_user_activity_registered)
  have g: "get_user ?us1 uid = Some ?u1" by (simp add: get_user_def)
  have s: "stats ?u1 ''total_messages'' = Some (n + 1)" by simp
  from Cons.IH [OF g s] obtain us' u' where
    r: "update_user_activities ts uid ?us1 = (None, us')" "get_user us' uid = Some u'"
       "stats u' ''total_messages'' = Some (n + 1 + int (length ts))"
       "registered_at u' = registered_at ?u1"
       "last_activity u' = (if ts = [] then last_activity ?u1 else last ts)"
    by blast
  show ?case
    using step r by auto
qed

text \<open>
  C6, as amended. For a registered user whose record has the counter \<open>total_messages\<close>
  and for any clock readings: after the first \<open>i\<close> calls of \<open>update_user_activity\<close>,
  for every \<open>i\<close> up to the number of calls, no call has raised, \<open>total_messages\<close> has
  grown by exactly \<open>i\<close>, \<open>registered_at\<close> is unchanged and \<open>last_activity\<close> is the
  reading of the last call; \<open>last_activity\<close> is not earlier than \<open>registered_at\<close> exactly
  when that reading is not earlier than \<open>registered_at\<close>. A call for an absent user id
  changes nothing.
\<close>

theorem update_user_activity_counts:
  assumes "get_user us uid = Some u"
    and "stats u ''total_messages'' = Some n"
  shows "(\<forall>i \<le> length ts. \<exists>us' u'.
            update_user_activities (take i ts) uid us = (None, us') \<and>
            get_user us' uid = Some u' \<and>
            stats u' ''total_messages'' = Some (n + int i) \<and>
            registered_at u' = registered_at u \<and>
            (0 < i \<longrightarrow> last_activity u' = ts ! (i - 1) \<and>
               (registered_at u' \<le> last_activity u' \<longleftrightarrow> registered_at u \<le> ts ! (i - 1)))) \<and>
         (\<forall>t uid'. \<not> is_user_registered us uid' \<longrightarrow> update_user_activity t uid' us = (None, us))"
proof (intro conjI allI impI)
  fix i assume i: "i \<le> length ts"
  from update_user_activities_all [OF assms(1,2), of "take i ts"] obtain us' u' where
    r: "update_user_activities (take i ts) uid us = (None, us')" "get_user us' uid = Some u'"
       "stats u' ''total_messages'' = Some (n + int (length (take i ts)))"
       "registered_at u' = registered_at u"
       "last_activity u' = (if take i ts = [] then last_activity u else last (take i ts))"
    by blast
  have l: "0 < i \<Longrightarrow> last (take i ts) = ts ! (i - 1) \<and> take i ts \<noteq> []"
    using i by (cases ts) (auto simp: last_conv_nth min_def)
  show "\<exists>us' u'. update_user_activities (take i ts) uid us = (None, us') \<and>
            get_user us' uid = Some u' \<and>
            stats u' ''total_messages'' = Some (n + int i) \<and>
            registered_at u' = registered_at u \<and>
            (0 < i \<longrightarrow> last_activity u' = ts ! (i - 1) \<and>
               (registered_at u' \<le> last_activity u' \<longleftrightarrow> registered_at u \<le> ts ! (i - 1)))"
    using r l i by (intro exI [of _ us'] exI [of _ u']) (auto simp: min_def)
next
  fix t uid' assume "\<not> is_user_registered us uid'"
  then show "update_user_activity t uid' us = (None, us)"
    by (rule update_user_activity_absent)
qed

theorem update_user_activity_counts_witness:
  "update_user_activities [150, 160, 170] 7 (snd (register_user 100 101 7 None None None Map.empty)) =
     (None, [str_int 7 \<mapsto>
        \<lparr>user_id = 7, username = None, first_name = None, last_name = None,
         language = ''en'', registered_at = 100, last_activity = 170,
         stats = initial_stats(''total_messages'' \<mapsto> 3), preferences = initial_preferences\<rparr>])"
proof -
  let ?us = "snd (register_user 100 101 7 None None None Map.empty)"
  let ?u = "\<lparr>user_id = 7, username = None, first_name = None, last_name = None,
         language = ''en'', registered_at = 100, last_activity = 101,
         stats = initial_stats, preferences = initial_preferences\<rparr>"
  have g: "get_user ?us 7 = Some ?u"
    by (simp add: get_user_def register_user_def)
  have s: "stats ?u ''total_messages'' = Some 0"
    by (simp add: initial_stats_def)
  from update_user_activity_counts [OF g s, of "[150, 160, 170]"]
  have "\<exists>us' u'. update_user_activities (take 3 [150, 160, 170]) 7 ?us = (None, us') \<and>
          get_user us' 7 = Some u' \<and> stats u' ''total_messages'' = Some (0 + int 3)"
    by (auto simp del: take_Cons_numeral)
  then show ?thesis
    by (simp add: update_user_activity_def register_user_def initial_stats_def)
qed

text \<open>
  C6 as stated fails: \<open>update_user_activity\<close> stores the reading without comparing it.
  A user registered at the reading 100 is touched at the reading 50 (a wall clock that
  was set back); the call does not raise, and afterwards \<open>registered_at\<close> is 100 and
  \<open>last_activity\<close> is 50.
\<close>

theorem activity_before_registration_counterexample:
  "is_user_registered (snd (register_user 100 101 7 None None None Map.empty)) 7 \<and>
   fst (update_user_activity 50 7 (snd (register_user 100 101 7 None None None Map.empty))) = None \<and>
   map_option registered_at
     (get_user (snd (update_user_activity 50 7
        (snd (register_user 100 101 7 None None None Map.empty)))) 7) = Some 100 \<and>
   map_option last_activity
     (get_user (snd (update_user_activity 50 7
        (snd (register_user 100 101 7 None None None Map.empty)))) 7) = Some 50 \<and>
   \<not> ((100::int) \<le> 50)"
  by (simp add: is_user_registered_def get_user_def register_user_def update_user_activity_def
      initial_stats_def)

section \<open>Properties of the dispatcher\<close>

subsection \<open>Registered and unregistered senders\<close>

lemma touch_None:
  assumes "wf_users us" "is_user_registered us uid"
  shows "update_user_activity t uid us = (None, touch t uid us)"
proof -
  from assms(2) obtain u where u: "us (str_int uid) = Some u"
    by (auto simp: is_user_registered_def get_user_def)
  then have "dom (stats u) = set stat_names" using assms(1) wf_users_lookup by blast
  then have "stats u ''total_messages'' \<noteq> None"
    by (metis domIff list.set_intros(1,2) stat_names_def)
  then show ?thesis using u
    by (auto simp: touch_def update_user_activity_def)
qed

lemma touch_wf: "wf_users us \<Longrightarrow> wf_users (touch t uid us)"
  by (simp add: touch_def wf_update_user_activity)

lemma touch_registered: "is_user_registered (touch t uid us) uid' = is_user_registered us uid'"
  by (auto simp: touch_def update_user_activity_def is_user_registered_def get_user_def Let_def
      split: option.splits)

lemma touch_language: "get_user_language (touch t uid us) uid' = get_user_language us uid'"
  by (auto simp: touch_def update_user_activity_def get_user_language_def get_user_def Let_def
      split: option.splits)

lemma touch_counter:
  "k \<noteq> ''total_messages'' \<Longrightarrow> counter (touch t uid us) uid' k = counter us uid' k"
  by (auto simp: touch_def update_user_activity_def counter_def get_user_def Let_def
      split: option.splits)

lemma handle_message_registered:
  assumes "registered_in w upd"
  shows "handle_message env upd w =
     (let uid = eff_user_id upd;
          t = strip (msg_text upd);
          w1 = w\<lparr>user_store := touch (now env) uid (user_store w)\<rparr>
      in if flag (user_data w) ''awaiting_hashtag_create'' then
           (Returned, handle_create_hashtag env upd w1)
         else if flag (user_data w) ''awaiting_hashtag_delete'' then
           (Returned, handle_delete_hashtag env upd w1)
         else if flag (user_data w) ''awaiting_category_import'' then
           (Returned, handle_import_list env upd w1)
         else if flag (user_data w) ''awaiting_language'' then
           handle_language_selection env upd w1
         else if hashtags_in t \<noteq> [] then
           (Returned, handle_tagged_note env upd (get_user_language (user_store w) uid) t w1)
         else handle_menu env upd (get_user_language (user_store w) uid) (lower env t) w1)"
  using assms touch_None [of "user_store w" "eff_user_id upd" "now env"]
  by (simp add: handle_message_def registered_in_def Let_def)


subsection \<open>Projections of the basic steps\<close>

lemma emit_sel [simp]:
  "user_store (emit e w) = user_store w"
  "user_data (emit e w) = user_data w"
  "events (emit e w) = events w @ [e]"
  by (simp_all add: emit_def)

lemma reply_menu_sel [simp]:
  "user_store (reply_menu env lang t w) = user_store w"
  "user_data (reply_menu env lang t w) = user_data w"
  "events (reply_menu env lang t w) = events w @ [ReplyText t (Some (get_main_keyboard env lang))]"
  by (simp_all add: reply_menu_def)

lemma reply_plain_sel [simp]:
  "user_store (reply_plain t w) = user_store w"
  "user_data (reply_plain t w) = user_data w"
  "events (reply_plain t w) = events w @ [ReplyText t None]"
  by (simp_all add: reply_plain_def)

lemma set_flag_sel [simp]:
  "user_store (set_flag k b w) = user_store w"
  "user_data (set_flag k b w) = (user_data w)(k \<mapsto> b)"
  "events (set_flag k b w) = events w"
  by (simp_all add: set_flag_def)

lemma flag_upd [simp]: "flag (ud(k \<mapsto> b)) k' = (if k' = k then b else flag ud k')"
  by (simp add: flag_def)

lemma new_events_append [simp]: "events w' = events w @ xs \<Longrightarrow> new_events w w' = xs"
  by (simp add: new_events_def)

lemma create_hashtag_snd [simp]:
  "snd (create_hashtag env n d w) = emit (HttpCall (PostHashtag n d)) w"
  by (simp add: create_hashtag_def Let_def)

lemma delete_hashtag_snd [simp]:
  "snd (delete_hashtag env n w) = emit (HttpCall (DeleteHashtag n)) w"
  by (simp add: delete_hashtag_def)

lemma get_hashtags_snd [simp]:
  "snd (get_hashtags env w) = emit (HttpCall GetHashtags) w"
  by (simp add: get_hashtags_def)

lemma get_words_by_category_snd [simp]:
  "snd (get_words_by_category env c w) = emit (HttpCall GetMessages) w"
  by (simp add: get_words_by_category_def)

lemma send_message_to_website_snd [simp]:
  "snd (send_message_to_website env t uid un w) =
     emit (HttpCall (PostMessage t (hashtags_in t) (str_int uid) un (now env))) w"
  by (simp add: send_message_to_website_def Let_def)

text \<open>What the second step of each flow leaves behind.\<close>

lemma create_pending:
  assumes "flag (user_data w) ''awaiting_hashtag_create''"
  shows "user_data (handle_create_hashtag env upd w) = (user_data w)(''awaiting_hashtag_create'' \<mapsto> False)"
    and "filter is_post_message (new_events w (handle_create_hashtag env upd w)) = []"
  using assms
  by (auto simp: handle_create_hashtag_def Let_def new_events_def split: prod.splits
      dest!: arg_cong [where f = snd])

lemma delete_pending:
  assumes "flag (user_data w) ''awaiting_hashtag_delete''"
  shows "user_data (handle_delete_hashtag env upd w) = (user_data w)(''awaiting_hashtag_delete'' \<mapsto> False)"
    and "filter is_post_message (new_events w (handle_delete_hashtag env upd w)) = []"
  using assms
  by (auto simp: handle_delete_hashtag_def Let_def new_events_def split: prod.splits
      dest!: arg_cong [where f = snd])

lemma send_pdf_sel:
  "user_data (send_pdf env lang uid t words p w) = user_data w"
  "filter is_post_message (new_events w (send_pdf env lang uid t words p w)) = []"
  by (auto simp: send_pdf_def Let_def new_events_def split: send_outcome.splits)

lemma events_send_pdf:
  "\<exists>xs. events (send_pdf env lang uid t words p w) = events w @ xs \<and> filter is_post_message xs = []"
  by (auto simp: send_pdf_def Let_def split: send_outcome.splits)

lemma import_pending:
  assumes "flag (user_data w) ''awaiting_category_import''"
  shows "user_data (handle_import_list env upd w) = (user_data w)(''awaiting_category_import'' \<mapsto> False)"
    and "filter is_post_message (new_events w (handle_import_list env upd w)) = []"
  using assms
  by (auto simp: handle_import_list_def Let_def new_events_def send_pdf_sel send_pdf_def
      split: prod.splits sum.splits option.splits send_outcome.splits
      dest!: arg_cong [where f = snd])

lemma language_pending:
  assumes "wf_users (user_store w)" "is_user_registered (user_store w) (eff_user_id upd)"
    "flag (user_data w) ''awaiting_language''"
  shows "fst (handle_language_selection env upd w) = Returned"
    and "user_data (snd (handle_language_selection env upd w)) = (user_data w)(''awaiting_language'' \<mapsto> False)"
    and "filter is_post_message (new_events w (snd (handle_language_selection env upd w))) = []"
  using assms touch_None [of "user_store w" "eff_user_id upd" "now env"]
  by (auto simp: handle_language_selection_def Let_def new_events_def)

text \<open>
  C4. For a registered sender with a pending flow, \<open>handle_message\<close> is the handler of
  that flow run on the world with the activity recorded, whatever the text is. It
  returns, the flag of the flow is clear afterwards, no flag is set that was not set
  before (so no menu handler has started a flow), and no request of the tagged-note
  branch has been sent.
\<close>

theorem pending_flow_consumes:
  assumes "registered_in w upd"
    and "session_state (user_data w) = s"
    and "s \<noteq> Idle"
  shows "handle_message env upd w =
           flow_handler s env upd
             (w\<lparr>user_store := touch (now env) (eff_user_id upd) (user_store w)\<rparr>) \<and>
         fst (handle_message env upd w) = Returned \<and>
         \<not> flag (user_data (snd (handle_message env upd w))) (flag_of s) \<and>
         (\<forall>k. flag (user_data (snd (handle_message env upd w))) k \<longrightarrow> flag (user_data w) k) \<and>
         filter is_post_message (new_events w (snd (handle_message env upd w))) = []"
proof -
  let ?w1 = "w\<lparr>user_store := touch (now env) (eff_user_id upd) (user_store w)\<rparr>"
  have ne: "\<And>w'. new_events w w' = new_events ?w1 w'"
    by (simp add: new_events_def)
  have reg1: "wf_users (user_store ?w1)" "is_user_registered (user_store ?w1) (eff_user_id upd)"
    using assms(1) by (simp_all add: registered_in_def touch_wf touch_registered)
  show ?thesis
  proof (cases s)
    case Idle
    with assms(3) show ?thesis by simp
  next
    case AwaitingHashtagCreate
    then have f: "flag (user_data ?w1) ''awaiting_hashtag_create''"
      using assms(2) by (auto simp: session_state_def split: if_splits)
    show ?thesis
      using f create_pending [OF f, of env upd]
      by (simp add: handle_message_registered [OF assms(1)] Let_def AwaitingHashtagCreate
          flag_of_def ne)
  next
    case AwaitingHashtagDelete
    then have f: "flag (user_data ?w1) ''awaiting_hashtag_delete''"
      and g: "\<not> flag (user_data w) ''awaiting_hashtag_create''"
      using assms(2) by (auto simp: session_state_def split: if_splits)
    show ?thesis
      using f g delete_pending [OF f, of env upd]
      by (simp add: handle_message_registered [OF assms(1)] Let_def AwaitingHashtagDelete
          flag_of_def ne)
  next
    case AwaitingCategoryImport
    then have f: "flag (user_data ?w1) ''awaiting_category_import''"
      and g: "\<not> flag (user_data w) ''awaiting_hashtag_create''"
             "\<not> flag (user_data w) ''awaiting_hashtag_delete''"
      using assms(2) by (auto simp: session_state_def split: if_splits)
    show ?thesis
      using f g import_pending [OF f, of env upd]
      by (simp add: handle_message_registered [OF assms(1)] Let_def AwaitingCategoryImport
          flag_of_def ne)
  next
    case AwaitingLanguageChoice
    then have f: "flag (user_data ?w1) ''awaiting_language''"
      and g: "\<not> flag (user_data w) ''awaiting_hashtag_create''"
             "\<not> flag (user_data w) ''awaiting_hashtag_delete''"
             "\<not> flag (user_data w) ''awaiting_category_import''"
      using assms(2) by (auto simp: session_state_def split: if_splits)
    show ?thesis
      using f g language_pending [OF reg1 f, of env]
      by (simp add: handle_message_registered [OF assms(1)] Let_def AwaitingLanguageChoice
          flag_of_def ne)
  qed
qed

subsection \<open>Choosing a language\<close>

lemma registered_in_example: "registered_in (example_world ud) (example_update t)"
proof -
  have "wf_users [str_int 7 \<mapsto> example_user]"
    by (rule wf_users_upd [OF wf_users_empty]) (simp add: example_user_def dom_initial_stats)
  then show ?thesis
    by (simp add: registered_in_def example_world_def example_update_def
        is_user_registered_def get_user_def)
qed

text \<open>
  C1, as amended. For a registered sender in the state \<open>AwaitingLanguageChoice\<close> whose
  stripped, lower-cased text is none of the tokens of the three languages: the handler
  returns, the session state is \<open>Idle\<close> afterwards (the pending flag is cleared), the
  stored language is unchanged, and the one event added is the trilingual
  invalid-choice reply.
\<close>

theorem invalid_language_choice_aborts:
  assumes "registered_in w upd"
    and "session_state (user_data w) = AwaitingLanguageChoice"
    and "strip (lower env (strip (msg_text upd))) \<notin>
           set english_tokens \<union> set russian_tokens \<union> set uzbek_tokens"
  shows "fst (handle_message env upd w) = Returned \<and>
         session_state (user_data (snd (handle_message env upd w))) = Idle \<and>
         get_user_language (user_store (snd (handle_message env upd w))) (eff_user_id upd) =
           get_user_language (user_store w) (eff_user_id upd) \<and>
         new_events w (snd (handle_message env upd w)) =
           [ReplyText (trilingual env ''invalid_language_choice'' nl)
              (Some (get_main_keyboard env ''en''))]"
proof -
  let ?uid = "eff_user_id upd"
  let ?us1 = "touch (now env) ?uid (user_store w)"
  let ?w1 = "w\<lparr>user_store := ?us1\<rparr>"
  have f: "flag (user_data w) ''awaiting_language''"
    and g: "\<not> flag (user_data w) ''awaiting_hashtag_create''"
           "\<not> flag (user_data w) ''awaiting_hashtag_delete''"
           "\<not> flag (user_data w) ''awaiting_category_import''"
    using assms(2) by (auto simp: session_state_def split: if_splits)
  have reg1: "wf_users ?us1" "is_user_registered ?us1 ?uid"
    using assms(1) by (simp_all add: registered_in_def touch_wf touch_registered)
  have m: "handle_message env upd w = handle_language_selection env upd ?w1"
    using f g by (simp add: handle_message_registered [OF assms(1)] Let_def)
  have l: "handle_language_selection env upd ?w1 =
      (Returned,
       reply_menu env ''en'' (trilingual env ''invalid_language_choice'' nl)
         (set_flag ''awaiting_language'' False (?w1\<lparr>user_store := touch (now env) ?uid ?us1\<rparr>)))"
    using reg1 f assms(3) touch_None [OF reg1, of "now env"]
    by (simp add: handle_language_selection_def Let_def)
  have s: "session_state ((user_data w)(''awaiting_language'' \<mapsto> False)) = Idle"
    using g by (simp add: session_state_def)
  show ?thesis
    unfolding m l using s
    by (simp add: touch_language new_events_def)
qed

theorem invalid_language_choice_aborts_witness:
  "session_state (user_data (snd (handle_message example_env (example_update (ascii ''xyz''))
      (example_world [''awaiting_language'' \<mapsto> True])))) = Idle \<and>
   get_user_language (user_store (snd (handle_message example_env (example_update (ascii ''xyz''))
      (example_world [''awaiting_language'' \<mapsto> True])))) 7 = ''ru''"
proof -
  let ?w = "example_world [''awaiting_language'' \<mapsto> True]"
  let ?upd = "example_update (ascii ''xyz'')"
  have s: "session_state (user_data ?w) = AwaitingLanguageChoice"
    by (simp add: example_world_def session_state_def flag_def)
  have c: "strip (lower example_env (strip (msg_text ?upd))) \<notin>
             set english_tokens \<union> set russian_tokens \<union> set uzbek_tokens"
    by (simp add: example_update_def example_env_def ascii_lower_def strip_def isspace_def
        ascii_def english_tokens_def russian_tokens_def uzbek_tokens_def)
  from invalid_language_choice_aborts [OF registered_in_example s c]
  show ?thesis
    by (simp add: example_update_def example_world_def get_user_language_def get_user_def
        example_user_def)
qed

text \<open>
  C1 as stated fails: a registered user in the state \<open>AwaitingLanguageChoice\<close> sends
  \<open>xyz\<close>, which is no language token, and the state afterwards is not
  \<open>AwaitingLanguageChoice\<close>.
\<close>

theorem language_choice_stays_pending_counterexample:
  "is_user_registered (user_store (example_world [''awaiting_language'' \<mapsto> True])) 7 \<and>
   session_state (user_data (example_world [''awaiting_language'' \<mapsto> True])) =
     AwaitingLanguageChoice \<and>
   strip (lower example_env (strip (ascii ''xyz''))) \<notin>
     set english_tokens \<union> set russian_tokens \<union> set uzbek_tokens \<and>
   session_state (user_data (snd (handle_message example_env (example_update (ascii ''xyz''))
      (example_world [''awaiting_language'' \<mapsto> True])))) \<noteq> AwaitingLanguageChoice"
proof -
  let ?w = "example_world [''awaiting_language'' \<mapsto> True]"
  let ?upd = "example_update (ascii ''xyz'')"
  let ?us1 = "touch 1000 7 (user_store ?w)"
  have r: "is_user_registered (user_store ?w) 7"
    by (simp add: example_world_def is_user_registered_def get_user_def)
  have s: "session_state (user_data ?w) = AwaitingLanguageChoice"
    by (simp add: example_world_def session_state_def flag_def)
  have c: "strip (lower example_env (strip (ascii ''xyz''))) \<notin>
             set english_tokens \<union> set russian_tokens \<union> set uzbek_tokens"
    by (simp add: example_env_def ascii_lower_def strip_def isspace_def
        ascii_def english_tokens_def russian_tokens_def uzbek_tokens_def)
  have reg: "registered_in ?w ?upd" by (rule registered_in_example)
  have reg1: "wf_users ?us1" "is_user_registered ?us1 7"
    using reg by (simp_all add: registered_in_def touch_wf touch_registered example_update_def)
  have m: "handle_message example_env ?upd ?w =
             handle_language_selection example_env ?upd (?w\<lparr>user_store := ?us1\<rparr>)"
    by (simp add: handle_message_registered [OF reg] Let_def)
       (simp add: example_world_def example_update_def example_env_def flag_def hashtags_in_def)
  have "session_state (user_data (snd (handle_language_selection example_env ?upd
          (?w\<lparr>user_store := ?us1\<rparr>)))) = Idle"
    using reg1 c touch_None [OF reg1, of 1000]
    by (simp add: handle_language_selection_def Let_def example_update_def)
       (simp add: example_world_def example_env_def session_state_def flag_def)
  then show ?thesis using r s c m by simp
qed

subsection \<open>Tagged notes\<close>



lemma counter_registered:
  assumes "registered_in w upd" "k \<in> set stat_names"
  shows "\<exists>n. counter (user_store w) (eff_user_id upd) k = Some n"
  using assms counter_wf [of "user_store w" "eff_user_id upd" k]
  by (auto simp: registered_in_def)




subsection \<open>Aborting the create flow\<close>

text \<open>From the idle state no message reaches the second step of the create flow.\<close>

lemma quiet_same: "events w' = events w \<Longrightarrow> quiet w w'"
  by (simp add: quiet_def)

lemma quiet_emit: "\<not> is_post_hashtag e \<Longrightarrow> quiet w w1 \<Longrightarrow> quiet w (emit e w1)"
  by (auto simp: quiet_def)

lemma quiet_reply_menu: "quiet w w1 \<Longrightarrow> quiet w (reply_menu env l t w1)"
  by (simp add: reply_menu_def quiet_emit)

lemma quiet_reply_plain: "quiet w w1 \<Longrightarrow> quiet w (reply_plain t w1)"
  by (simp add: reply_plain_def quiet_emit)

lemma quiet_set_flag: "quiet w w1 \<Longrightarrow> quiet w (set_flag k b w1)"
  by (simp add: quiet_def)

lemma quiet_store: "quiet w w1 \<Longrightarrow> quiet w (w1\<lparr>user_store := us\<rparr>)"
  by (simp add: quiet_def)

lemma quiet_new_events: "quiet w w' \<Longrightarrow> filter is_post_hashtag (new_events w w') = []"
  by (auto simp: quiet_def new_events_def)

lemma quiet_sync: "quiet w w1 \<Longrightarrow> quiet w (snd (sync_user_to_backend env uid w1))"
  by (auto simp: sync_user_to_backend_def Let_def quiet_emit split: option.splits)

lemma quiet_show_hashtags: "quiet w w1 \<Longrightarrow> quiet w (show_hashtags env lang a b c d e w1)"
  by (auto simp: show_hashtags_def case_prod_beta quiet_emit quiet_reply_menu split: sum.splits)

lemma quiet_register_command: "quiet w w1 \<Longrightarrow> quiet w (register_command env upd w1)"
  by (simp add: register_command_def Let_def case_prod_beta quiet_reply_menu quiet_reply_plain
      quiet_sync quiet_store)

lemma quiet_help_command: "quiet w w1 \<Longrightarrow> quiet w (snd (help_command env upd w1))"
  by (simp add: help_command_def Let_def case_prod_beta quiet_reply_menu quiet_reply_plain
      quiet_store split: option.splits)

lemma quiet_profile_command: "quiet w w1 \<Longrightarrow> quiet w (snd (profile_command env upd w1))"
  by (simp add: profile_command_def Let_def quiet_reply_menu quiet_reply_plain
      split: option.splits sum.splits)

lemma quiet_open_website: "quiet w w1 \<Longrightarrow> quiet w (handle_open_website env upd w1)"
  by (simp add: handle_open_website_def Let_def quiet_reply_menu)

lemma quiet_language: "quiet w w1 \<Longrightarrow> quiet w (snd (handle_language_selection env upd w1))"
  by (simp add: handle_language_selection_def Let_def case_prod_beta quiet_reply_menu
      quiet_reply_plain quiet_store quiet_set_flag split: option.splits)

lemma quiet_create_first:
  "\<not> flag (user_data w1) ''awaiting_hashtag_create'' \<Longrightarrow> quiet w w1 \<Longrightarrow>
   quiet w (handle_create_hashtag env upd w1)"
  by (simp add: handle_create_hashtag_def Let_def quiet_reply_menu quiet_set_flag)

lemma quiet_send_pdf: "quiet w w1 \<Longrightarrow> quiet w (send_pdf env lang uid t ws p w1)"
  by (simp add: send_pdf_def Let_def quiet_reply_menu quiet_emit quiet_store
      split: send_outcome.splits)

lemma quiet_delete: "quiet w w1 \<Longrightarrow> quiet w (handle_delete_hashtag env upd w1)"
  by (simp add: handle_delete_hashtag_def Let_def case_prod_beta quiet_reply_menu quiet_set_flag
      quiet_show_hashtags quiet_emit quiet_store)

lemma quiet_import: "quiet w w1 \<Longrightarrow> quiet w (handle_import_list env upd w1)"
  by (simp add: handle_import_list_def Let_def case_prod_beta quiet_reply_menu quiet_set_flag
      quiet_show_hashtags quiet_emit quiet_store quiet_send_pdf split: sum.splits option.splits)

lemma quiet_tagged_note: "quiet w w1 \<Longrightarrow> quiet w (handle_tagged_note env upd lang t w1)"
  by (simp add: handle_tagged_note_def Let_def case_prod_beta quiet_reply_menu quiet_emit
      quiet_store)

lemma quiet_menu:
  "\<not> flag (user_data w1) ''awaiting_hashtag_create'' \<Longrightarrow> quiet w w1 \<Longrightarrow>
   quiet w (snd (handle_menu env upd lang lt w1))"
  by (simp add: handle_menu_def quiet_help_command quiet_create_first quiet_delete quiet_import
      quiet_language quiet_open_website quiet_profile_command quiet_register_command
      quiet_reply_menu)

lemma idle_no_create:
  assumes "\<not> flag (user_data w) ''awaiting_hashtag_create''"
  shows "quiet w (snd (handle_message env upd w))"
  using assms
  by (simp add: handle_message_def Let_def case_prod_beta quiet_register_command
      quiet_reply_plain quiet_same quiet_delete quiet_import quiet_language quiet_tagged_note
      quiet_menu split: option.splits)

lemma single_create_flags:
  assumes "session_state ud = AwaitingHashtagCreate" "single_flow ud"
  shows "flag ud ''awaiting_hashtag_create''" "\<not> flag ud ''awaiting_hashtag_delete''"
    "\<not> flag ud ''awaiting_category_import''" "\<not> flag ud ''awaiting_language''"
  using assms by (auto simp: session_state_def single_flow_def flow_flags_def split: if_splits)

text \<open>
  C8. For a registered sender whose only pending flow is the create flow, and a text
  whose first part (up to the first space) does not start with \<open>#\<close>: the handler
  returns, the state is \<open>Idle\<close> afterwards, the one event added is the error reply (so
  no request to create a hashtag is sent), and \<open>hashtags_created\<close> is unchanged. The
  next message of that sender, whatever it is, sends no request to create a hashtag:
  the flow has to be started again.
\<close>

theorem create_abort:
  assumes "registered_in w upd"
    and "session_state (user_data w) = AwaitingHashtagCreate"
    and "single_flow (user_data w)"
    and "\<not> startswith_hash (fst (split_space1 (strip (msg_text upd))))"
  shows "fst (handle_message env upd w) = Returned \<and>
         session_state (user_data (snd (handle_message env upd w))) = Idle \<and>
         new_events w (snd (handle_message env upd w)) =
           [ReplyText
              (get_text env ''hashtag_must_start'' (get_user_language (user_store w) (eff_user_id upd)) @
               nl @ nl @
               get_text env ''hashtag_example'' (get_user_language (user_store w) (eff_user_id upd)))
              (Some (get_main_keyboard env (get_user_language (user_store w) (eff_user_id upd))))] \<and>
         counter (user_store (snd (handle_message env upd w))) (eff_user_id upd) ''hashtags_created'' =
           counter (user_store w) (eff_user_id upd) ''hashtags_created'' \<and>
         (\<forall>env' upd'. eff_user_id upd' = eff_user_id upd \<longrightarrow>
            filter is_post_hashtag
              (new_events (snd (handle_message env upd w))
                 (snd (handle_message env' upd' (snd (handle_message env upd w))))) = [])"
proof -
  let ?uid = "eff_user_id upd"
  let ?lang = "get_user_language (user_store w) ?uid"
  let ?w1 = "w\<lparr>user_store := touch (now env) ?uid (user_store w)\<rparr>"
  let ?w2 = "reply_menu env ?lang
               (get_text env ''hashtag_must_start'' ?lang @ nl @ nl @
                get_text env ''hashtag_example'' ?lang)
               (set_flag ''awaiting_hashtag_create'' False ?w1)"
  note fl = single_create_flags [OF assms(2,3)]
  have m: "handle_message env upd w = (Returned, ?w2)"
    using fl(1) assms(4)
    by (simp add: handle_message_registered [OF assms(1)] Let_def handle_create_hashtag_def
        touch_language)
  have s: "session_state (user_data ?w2) = Idle"
    using fl by (simp add: session_state_def)
  have q: "\<And>env' upd'. filter is_post_hashtag (new_events ?w2 (snd (handle_message env' upd' ?w2))) = []"
    by (rule quiet_new_events, rule idle_no_create) simp
  show ?thesis
    unfolding m using s q
    by (simp add: new_events_def touch_counter)
qed

subsection \<open>The import flow\<close>

text \<open>
  C9. When the listing of messages answers 200, \<open>get_words_by_category\<close> sends that one
  request and returns exactly the items of the listing whose \<open>category\<close> equals the
  requested one. When, in the second step of the import flow, no item matches, the
  events added are that request and the reply that no words were found: no PDF is
  rendered and \<open>pdfs_generated\<close> is unchanged.
\<close>

theorem import_without_items:
  assumes "get_messages_response env = Response 200 items"
  shows "fst (get_words_by_category env c w) = Inr (filter (\<lambda>msg. msg ''category'' = Some c) items) \<and>
         new_events w (snd (get_words_by_category env c w)) = [HttpCall GetMessages] \<and>
         (registered_in w upd \<and> session_state (user_data w) = AwaitingCategoryImport \<and>
          startswith_hash (strip (msg_text upd)) \<and>
          filter (\<lambda>msg. msg ''category'' = Some (strip (msg_text upd))) items = [] \<longrightarrow>
            fst (handle_message env upd w) = Returned \<and>
            new_events w (snd (handle_message env upd w)) =
              [HttpCall GetMessages,
               ReplyText
                 (get_text env ''no_words_found'' (get_user_language (user_store w) (eff_user_id upd)) @
                  [32] @ strip (msg_text upd) @ ascii ''.'')
                 (Some (get_main_keyboard env (get_user_language (user_store w) (eff_user_id upd))))] \<and>
            filter is_pdf (new_events w (snd (handle_message env upd w))) = [] \<and>
            counter (user_store (snd (handle_message env upd w))) (eff_user_id upd) ''pdfs_generated'' =
              counter (user_store w) (eff_user_id upd) ''pdfs_generated'')"
proof (intro conjI impI)
  show g: "fst (get_words_by_category env c w) = Inr (filter (\<lambda>msg. msg ''category'' = Some c) items)"
    using assms by (simp add: get_words_by_category_def)
  show "new_events w (snd (get_words_by_category env c w)) = [HttpCall GetMessages]"
    by simp
next
  let ?uid = "eff_user_id upd"
  let ?t = "strip (msg_text upd)"
  let ?lang = "get_user_language (user_store w) ?uid"
  let ?w1 = "w\<lparr>user_store := touch (now env) ?uid (user_store w)\<rparr>"
  let ?w2 = "reply_menu env ?lang (get_text env ''no_words_found'' ?lang @ [32] @ ?t @ ascii ''.'')
               (emit (HttpCall GetMessages) (set_flag ''awaiting_category_import'' False ?w1))"
  assume a: "registered_in w upd \<and> session_state (user_data w) = AwaitingCategoryImport \<and>
          startswith_hash ?t \<and> filter (\<lambda>msg. msg ''category'' = Some ?t) items = []"
  then have fl: "\<not> flag (user_data w) ''awaiting_hashtag_create''"
    "\<not> flag (user_data w) ''awaiting_hashtag_delete''"
    "flag (user_data w) ''awaiting_category_import''"
    by (auto simp: session_state_def split: if_splits)
  have g: "\<And>w'. fst (get_words_by_category env ?t w') = Inr []"
    using assms a by (simp add: get_words_by_category_def)
  have m: "handle_message env upd w = (Returned, ?w2)"
    using a fl g
    by (simp add: handle_message_registered Let_def handle_import_list_def touch_language
        case_prod_beta)
  show "fst (handle_message env upd w) = Returned" unfolding m by simp
  show "new_events w (snd (handle_message env upd w)) =
              [HttpCall GetMessages,
               ReplyText (get_text env ''no_words_found'' ?lang @ [32] @ ?t @ ascii ''.'')
                 (Some (get_main_keyboard env ?lang))]"
    unfolding m by (simp add: new_events_def)
  show "filter is_pdf (new_events w (snd (handle_message env upd w))) = []"
    unfolding m by (simp add: new_events_def)
  show "counter (user_store (snd (handle_message env upd w))) ?uid ''pdfs_generated'' =
              counter (user_store w) ?uid ''pdfs_generated''"
    unfolding m by (simp add: touch_counter)
qed

text \<open>
  C10. In the second step of the import flow, when some items match and rendering
  returns a path: \<open>pdfs_generated\<close> grows by exactly 1 whatever happens when the
  document is sent; and when opening or sending the document fails, the events added
  are the listing request, the rendering and the error reply, with no document.
\<close>

theorem pdf_counted_before_sending:
  assumes "registered_in w upd"
    and "session_state (user_data w) = AwaitingCategoryImport"
    and "startswith_hash (strip (msg_text upd))"
    and "get_messages_response env = Response 200 items"
    and "filter (\<lambda>msg. msg ''category'' = Some (strip (msg_text upd))) items = ws"
    and "ws \<noteq> []"
    and "generate_pdf env ws (strip (msg_text upd)) = Some p"
    and "p \<noteq> []"
  shows "fst (handle_message env upd w) = Returned \<and>
         (\<exists>n. counter (user_store w) (eff_user_id upd) ''pdfs_generated'' = Some n \<and>
            counter (user_store (snd (handle_message env upd w))) (eff_user_id upd) ''pdfs_generated'' =
              Some (n + 1)) \<and>
         (document_outcome env = OpenFailed \<or> document_outcome env = SendFailed \<longrightarrow>
            new_events w (snd (handle_message env upd w)) =
              [HttpCall GetMessages, GeneratePdf ws (strip (msg_text upd)),
               ReplyText
                 (get_text env ''error_sending_pdf'' (get_user_language (user_store w) (eff_user_id upd)))
                 (Some (get_main_keyboard env (get_user_language (user_store w) (eff_user_id upd))))])"
proof -
  let ?uid = "eff_user_id upd"
  let ?t = "strip (msg_text upd)"
  let ?lang = "get_user_language (user_store w) ?uid"
  let ?w1 = "w\<lparr>user_store := touch (now env) ?uid (user_store w)\<rparr>"
  let ?w3 = "emit (GeneratePdf ws ?t)
               (emit (HttpCall GetMessages) (set_flag ''awaiting_category_import'' False ?w1))"
  have fl: "\<not> flag (user_data w) ''awaiting_hashtag_create''"
    "\<not> flag (user_data w) ''awaiting_hashtag_delete''"
    "flag (user_data w) ''awaiting_category_import''"
    using assms(2) by (auto simp: session_state_def split: if_splits)
  have g: "\<And>w'. fst (get_words_by_category env ?t w') = Inr ws"
    using assms(4,5) by (simp add: get_words_by_category_def)
  have m: "handle_message env upd w = (Returned, send_pdf env ?lang ?uid ?t ws p ?w3)"
    using fl g assms(3,6,7,8)
    by (simp add: handle_message_registered [OF assms(1)] Let_def handle_import_list_def
        touch_language case_prod_beta)
  obtain n where n: "counter (user_store w) ?uid ''pdfs_generated'' = Some n"
    using counter_registered [OF assms(1), of "''pdfs_generated''"] by (auto simp: stat_names_def)
  have c: "counter (user_store (send_pdf env ?lang ?uid ?t ws p ?w3)) ?uid ''pdfs_generated'' =
             Some (n + 1)"
    using n
    by (simp add: send_pdf_def Let_def counter_increment_stat touch_counter
        split: send_outcome.splits)
  have e: "document_outcome env = OpenFailed \<or> document_outcome env = SendFailed \<Longrightarrow>
           events (send_pdf env ?lang ?uid ?t ws p ?w3) =
             events w @ [HttpCall GetMessages, GeneratePdf ws ?t,
               ReplyText (get_text env ''error_sending_pdf'' ?lang)
                 (Some (get_main_keyboard env ?lang))]"
    by (auto simp: send_pdf_def Let_def)
  show ?thesis
    unfolding m using n c e by (auto simp: new_events_def)
qed

subsection \<open>The properties at concrete messages\<close>

lemma example_simps:
  "eff_user_id (example_update t) = 7"
  "msg_text (example_update t) = t"
  "user_data (example_world ud) = ud"
  "events (example_world ud) = []"
  "now example_env = 1000"
  "lower example_env = ascii_lower"
  by (simp_all add: example_update_def example_world_def example_env_def)

lemma example_counter: "k \<in> set stat_names \<Longrightarrow> counter (user_store (example_world ud)) 7 k = Some 0"
  by (auto simp: example_world_def counter_def get_user_def example_user_def initial_stats_def
      stat_names_def)


theorem pending_flow_consumes_witness:
  "registered_in (example_world [''awaiting_hashtag_delete'' \<mapsto> True])
     (example_update (ascii ''help.ru'')) \<and>
   session_state [''awaiting_hashtag_delete'' \<mapsto> True] = AwaitingHashtagDelete \<and>
   lower example_env (ascii ''help.ru'') = lower example_env (get_text example_env ''help'' ''ru'') \<and>
   \<not> flag (user_data (snd (handle_message example_env (example_update (ascii ''help.ru''))
        (example_world [''awaiting_hashtag_delete'' \<mapsto> True])))) ''awaiting_hashtag_delete''"
proof -
  let ?w = "example_world [''awaiting_hashtag_delete'' \<mapsto> True]"
  let ?upd = "example_update (ascii ''help.ru'')"
  have s: "session_state (user_data ?w) = AwaitingHashtagDelete"
    by (simp add: example_simps session_state_def flag_def)
  have i: "AwaitingHashtagDelete \<noteq> Idle" by simp
  have l: "lower example_env (ascii ''help.ru'') =
             lower example_env (get_text example_env ''help'' ''ru'')"
    by (simp add: example_env_def ascii_def)
  from pending_flow_consumes [OF registered_in_example s i, of example_env "ascii ''help.ru''"]
  have "\<not> flag (user_data (snd (handle_message example_env ?upd ?w))) (flag_of AwaitingHashtagDelete)"
    by blast
  then show ?thesis
    using s l registered_in_example by (simp add: flag_of_def example_simps)
qed



theorem create_abort_witness:
  "registered_in (example_world [''awaiting_hashtag_create'' \<mapsto> True])
     (example_update (ascii ''words hello'')) \<and>
   session_state [''awaiting_hashtag_create'' \<mapsto> True] = AwaitingHashtagCreate \<and>
   single_flow [''awaiting_hashtag_create'' \<mapsto> True] \<and>
   \<not> startswith_hash (fst (split_space1 (strip (ascii ''words hello'')))) \<and>
   session_state (user_data (snd (handle_message example_env (example_update (ascii ''words hello''))
      (example_world [''awaiting_hashtag_create'' \<mapsto> True])))) = Idle \<and>
   filter is_post_hashtag
     (new_events
        (snd (handle_message example_env (example_update (ascii ''words hello''))
           (example_world [''awaiting_hashtag_create'' \<mapsto> True])))
        (snd (handle_message example_env (example_update (ascii ''#words hello''))
           (snd (handle_message example_env (example_update (ascii ''words hello''))
              (example_world [''awaiting_hashtag_create'' \<mapsto> True])))))) = []"
proof -
  let ?w = "example_world [''awaiting_hashtag_create'' \<mapsto> True]"
  let ?upd = "example_update (ascii ''words hello'')"
  have s: "session_state (user_data ?w) = AwaitingHashtagCreate"
    by (simp add: example_simps session_state_def flag_def)
  have o: "single_flow (user_data ?w)"
    by (simp add: example_simps single_flow_def flow_flags_def flag_def)
  have p: "\<not> startswith_hash (fst (split_space1 (strip (ascii ''words hello''))))"
    by (simp add: split_space1_def strip_def isspace_def ascii_def)
  have p': "\<not> startswith_hash (fst (split_space1 (strip (msg_text ?upd))))"
    using p by (simp add: example_simps)
  from create_abort [OF registered_in_example s o p', of example_env]
  show ?thesis
    using s o p registered_in_example by (simp add: example_simps)
qed

theorem import_without_items_witness:
  "filter (\<lambda>msg. msg ''category'' = Some (strip (ascii ''#nouns''))) example_items = [] \<and>
   new_events (example_world [''awaiting_category_import'' \<mapsto> True])
     (snd (handle_message (example_env\<lparr>get_messages_response := Response 200 example_items\<rparr>)
        (example_update (ascii ''#nouns'')) (example_world [''awaiting_category_import'' \<mapsto> True]))) =
     [HttpCall GetMessages,
      ReplyText (ascii ''no_words_found.ru #nouns.'')
        (Some (get_main_keyboard example_env ''ru''))]"
proof -
  let ?env = "example_env\<lparr>get_messages_response := Response 200 example_items\<rparr>"
  let ?w = "example_world [''awaiting_category_import'' \<mapsto> True]"
  let ?upd = "example_update (ascii ''#nouns'')"
  have g: "get_messages_response ?env = Response 200 example_items" by simp
  have s: "session_state (user_data ?w) = AwaitingCategoryImport"
    by (simp add: example_simps session_state_def flag_def)
  have t: "strip (ascii ''#nouns'') = ascii ''#nouns''"
    by (simp add: strip_def isspace_def ascii_def)
  have f: "filter (\<lambda>msg. msg ''category'' = Some (strip (ascii ''#nouns''))) example_items = []"
    by (simp add: example_items_def ascii_def strip_def isspace_def)
  have h: "startswith_hash (strip (ascii ''#nouns''))"
    by (simp add: t) (simp add: ascii_def)
  have l: "get_user_language (user_store ?w) 7 = ''ru''"
    by (simp add: example_world_def get_user_language_def get_user_def example_user_def)
  have k: "get_main_keyboard ?env = get_main_keyboard example_env"
    by (rule ext) (simp add: get_main_keyboard_def example_env_def)
  from import_without_items [OF g, of "ascii ''#nouns''" ?w ?upd]
  show ?thesis
    using registered_in_example s f h
    by (simp add: example_simps l k t) (simp add: example_env_def ascii_def)
qed

theorem pdf_counted_before_sending_witness:
  "counter (user_store (snd (handle_message
      (example_env\<lparr>get_messages_response := Response 200 example_items,
                    document_outcome := SendFailed\<rparr>)
      (example_update (ascii ''#words'')) (example_world [''awaiting_category_import'' \<mapsto> True]))))
     7 ''pdfs_generated'' = Some 1 \<and>
   new_events (example_world [''awaiting_category_import'' \<mapsto> True])
     (snd (handle_message
        (example_env\<lparr>get_messages_response := Response 200 example_items,
                      document_outcome := SendFailed\<rparr>)
        (example_update (ascii ''#words'')) (example_world [''awaiting_category_import'' \<mapsto> True]))) =
     [HttpCall GetMessages,
      GeneratePdf [[''category'' \<mapsto> ascii ''#words'', ''text'' \<mapsto> ascii ''cat #words'']] (ascii ''#words''),
      ReplyText (ascii ''error_sending_pdf.ru'') (Some (get_main_keyboard example_env ''ru''))]"
proof -
  let ?env = "example_env\<lparr>get_messages_response := Response 200 example_items,
                          document_outcome := SendFailed\<rparr>"
  let ?w = "example_world [''awaiting_category_import'' \<mapsto> True]"
  let ?upd = "example_update (ascii ''#words'')"
  let ?ws = "[[''category'' \<mapsto> ascii ''#words'', ''text'' \<mapsto> ascii ''cat #words'']] :: item list"
  have g: "get_messages_response ?env = Response 200 example_items" by simp
  have s: "session_state (user_data ?w) = AwaitingCategoryImport"
    by (simp add: example_simps session_state_def flag_def)
  have t: "strip (ascii ''#words'') = ascii ''#words''"
    by (simp add: strip_def isspace_def ascii_def)
  have f: "filter (\<lambda>msg. msg ''category'' = Some (strip (msg_text ?upd))) example_items = ?ws"
    by (simp add: example_simps example_items_def ascii_def strip_def isspace_def)
  have h: "startswith_hash (strip (msg_text ?upd))"
    by (simp add: example_simps t) (simp add: ascii_def)
  have ne: "?ws \<noteq> []" by simp
  have p: "generate_pdf ?env ?ws (strip (msg_text ?upd)) = Some (ascii ''/tmp/list.pdf'')"
    by (simp add: example_env_def)
  have pn: "ascii ''/tmp/list.pdf'' \<noteq> []" by (simp add: ascii_def)
  have l: "get_user_language (user_store ?w) 7 = ''ru''"
    by (simp add: example_world_def get_user_language_def get_user_def example_user_def)
  have k: "get_main_keyboard ?env = get_main_keyboard example_env"
    by (rule ext) (simp add: get_main_keyboard_def example_env_def)
  have d: "document_outcome ?env = SendFailed" by simp
  from pdf_counted_before_sending [OF registered_in_example s h g f ne p pn]
  show ?thesis
    using d by (simp add: example_simps l k t example_counter stat_names_def)
               (simp add: example_env_def ascii_def)
qed

end
